theory Spec2Isabelle
  imports Main "HOL-Library.Word"
begin

section \<open>The in-flight store (src/stores/generationStore.ts)\<close>

text \<open>
  The store holds the record \<open>{isActive, mediaType}\<close>. Its two actions call zustand's
  \<open>set\<close> with a partial record, which is merged into the current state: fields that the
  partial record does not mention keep their value.
\<close>

datatype media_type = ImageMedia | VideoMedia

record GenerationState =
  isActive :: bool
  mediaType :: media_type

definition initGenerationStore :: GenerationState where
  "initGenerationStore = \<lparr>isActive = False, mediaType = ImageMedia\<rparr>"

definition defaultInitState :: GenerationState where
  "defaultInitState = \<lparr>isActive = False, mediaType = ImageMedia\<rparr>"

text \<open>
  \<open>startGeneration: (mediaType = 'image') => set(() => ({ isActive: true, mediaType }))\<close>.
  The optional argument is an \<open>option\<close>; \<open>None\<close> is the call without argument.
\<close>

definition startGeneration :: "media_type option \<Rightarrow> GenerationState \<Rightarrow> GenerationState" where
  "startGeneration arg s =
     (let mediaType = (case arg of None \<Rightarrow> ImageMedia | Some m \<Rightarrow> m)
      in s\<lparr>isActive := True, mediaType := mediaType\<rparr>)"

text \<open>\<open>stopGeneration: () => set(() => ({ isActive: false }))\<close>\<close>

definition stopGeneration :: "GenerationState \<Rightarrow> GenerationState" where
  "stopGeneration s = s\<lparr>isActive := False\<rparr>"

section \<open>Decimal rendering of numbers\<close>

text \<open>
  Template literals such as \<open>`... after ${retryCount} retries`\<close> render a non-negative
  integer in decimal.
\<close>

definition digit_char :: "nat \<Rightarrow> char" where
  "digit_char d = ''0123456789'' ! d"

fun show_nat :: "nat \<Rightarrow> string" where
  "show_nat n = (if n < 10 then [digit_char n] else show_nat (n div 10) @ [digit_char (n mod 10)])"

declare show_nat.simps [simp del]

section \<open>Video status polling (src/app/home/components/videoStatusPoll.tsx)\<close>

subsection \<open>Data\<close>

datatype job_status = Queued | Processing | Completed | Failed

record video_info =
  s3 :: string
  url :: string

record VideoStatus =
  vs_jobId :: string
  vs_status :: job_status
  vs_createdAt :: string
  vs_updatedAt :: string
  vs_video :: "video_info option"
  vs_error :: "string option"

text \<open>
  A value caught by \<open>catch (err)\<close>: an \<open>Error\<close> object with its message, or any other
  thrown value.
\<close>

datatype thrown = ErrorObj string | NonError

text \<open>
  The result of \<open>await fetch(...)\<close>. A response has its HTTP status, its status text and
  the result of \<open>await response.json()\<close>, which rejects when the body is not JSON.
  \<open>response.ok\<close> is true exactly for the statuses 200 to 299.
\<close>

record response =
  http_status :: nat
  statusText :: string
  json :: "thrown + VideoStatus"

definition response_ok :: "response \<Rightarrow> bool" where
  "response_ok r = (200 \<le> http_status r \<and> http_status r \<le> 299)"

datatype fetch_outcome = FetchRejects thrown | FetchResolves response

text \<open>
  The result of the \<open>posts\<close> table update: it resolves without error (the rows with the
  given id are updated), resolves with an error, or throws.
\<close>

datatype update_outcome = UpdateApplied | UpdateError | UpdateThrows

text \<open>One element of the \<open>video_data\<close> column written by the poller.\<close>

record video_entry =
  vd_hash :: string
  vd_url :: string
  vd_s3 :: string

text \<open>The component's props; \<open>onVideoReady\<close> is recorded in \<open>readyCalls\<close> below.\<close>

record props =
  postId :: nat
  jobId :: string

text \<open>
  The four \<open>useState\<close> cells of the component, and what the component acts on: the
  \<open>video_data\<close> column of the \<open>posts\<close> table by post id, the arguments of the calls of
  \<open>onVideoReady\<close> in order, and the URLs of the status requests issued in order.
  \<open>inFlight\<close> holds while a status request has been issued whose response no call of
  \<open>pollVideoStatus\<close> has handled yet (see \<open>effect_rerun\<close> below).
\<close>

record poller =
  status :: "VideoStatus option"
  isPolling :: bool
  error :: "string option"
  retryCount :: nat
  posts :: "nat \<rightharpoonup> video_entry list"
  readyCalls :: "string list"
  requests :: "string list"
  inFlight :: bool

text \<open>The state after the first render: \<open>useState(null)\<close>, \<open>useState(true)\<close>,
  \<open>useState(null)\<close>, \<open>useState(0)\<close>.\<close>

definition initial_poller :: "(nat \<rightharpoonup> video_entry list) \<Rightarrow> poller" where
  "initial_poller db =
     \<lparr>status = None, isPolling = True, error = None, retryCount = 0,
      posts = db, readyCalls = [], requests = [], inFlight = False\<rparr>"

subsection \<open>Operations\<close>

text \<open>
  \<open>updatePostWithVideo\<close>: \<open>update({video_data: [{hash, url, s3}]}).eq("id", postId)\<close>.
  An error result and an exception are logged and change nothing.
\<close>

definition updatePostWithVideo :: "props \<Rightarrow> update_outcome \<Rightarrow> string \<Rightarrow> string \<Rightarrow> poller \<Rightarrow> poller" where
  "updatePostWithVideo pr out videoUrl s3Url w =
     (case out of
        UpdateApplied \<Rightarrow>
          (case posts w (postId pr) of
             None \<Rightarrow> w
           | Some _ \<Rightarrow>
               w\<lparr>posts := (posts w)(postId pr \<mapsto>
                     [\<lparr>vd_hash = videoUrl, vd_url = videoUrl, vd_s3 = s3Url\<rparr>])\<rparr>)
      | UpdateError \<Rightarrow> w
      | UpdateThrows \<Rightarrow> w)"

text \<open>
  \<open>statusData.status === "completed" && statusData.video?.url\<close>: the video is present
  and its URL is a non-empty string.
\<close>

definition completed_video :: "VideoStatus \<Rightarrow> video_info option" where
  "completed_video statusData =
     (if vs_status statusData = Completed then
        (case vs_video statusData of
           None \<Rightarrow> None
         | Some v \<Rightarrow> (if url v \<noteq> [] then Some v else None))
      else None)"

text \<open>The URL of the status request, \<open>`/api/videos/status/${jobId}`\<close>.\<close>

definition status_endpoint :: "props \<Rightarrow> string" where
  "status_endpoint pr = ''/api/videos/status/'' @ jobId pr"

text \<open>The call \<open>fetch(`/api/videos/status/${jobId}`)\<close>: the request is issued.\<close>

definition poll_request :: "props \<Rightarrow> poller \<Rightarrow> poller" where
  "poll_request pr w = w\<lparr>requests := requests w @ [status_endpoint pr]\<rparr>"

text \<open>
  What happens when \<open>pollVideoStatus\<close> yields at \<open>await updatePostWithVideo(...)\<close>, after
  \<open>setStatus\<close> and \<open>setRetryCount(0)\<close>: the component renders again, and when the retry count
  has changed (\<open>previous\<close> is its value before the setters) the effect, which has \<open>retryCount\<close>
  among its dependencies, is run again. \<open>isPolling\<close> is still true at that moment, so the
  guard passes and the effect polls at once: a further status request is issued while the
  current call is suspended. No other branch awaits between its setters.
\<close>

definition effect_rerun :: "props \<Rightarrow> nat \<Rightarrow> poller \<Rightarrow> poller" where
  "effect_rerun pr previous w =
     (if retryCount w \<noteq> previous \<and> \<not> (jobId pr = [] \<or> \<not> isPolling w) then
        (poll_request pr w)\<lparr>inFlight := True\<rparr>
      else w)"

text \<open>
  The body of the \<open>try\<close> block of \<open>pollVideoStatus\<close> after \<open>await fetch(...)\<close>. \<open>Inl\<close> is a
  value thrown inside the block (by \<open>fetch\<close>, by \<open>response.json()\<close> or by the \<open>throw\<close>
  statement); no state has been set when one is thrown. \<open>retryCount w\<close> is the value the
  closure reads; the effect is re-created whenever the cell changes, so it is the cell's
  value.
\<close>

definition poll_try :: "props \<Rightarrow> fetch_outcome \<times> update_outcome \<Rightarrow> poller \<Rightarrow> thrown + poller" where
  "poll_try pr ev w =
     (case fst ev of
        FetchRejects t \<Rightarrow> Inl t
      | FetchResolves r \<Rightarrow>
          (if \<not> response_ok r then
             (if http_status r = 404 \<and> retryCount w < 10 then
                Inr (w\<lparr>retryCount := retryCount w + 1\<rparr>)
              else if retryCount w < 5 then
                Inr (w\<lparr>retryCount := retryCount w + 1\<rparr>)
              else
                Inl (ErrorObj (''Status check failed after '' @ show_nat (retryCount w)
                                @ '' retries: '' @ statusText r)))
           else
             (case json r of
                Inl t \<Rightarrow> Inl t
              | Inr statusData \<Rightarrow>
                  (let w1 = w\<lparr>status := Some statusData, retryCount := 0\<rparr> in
                   (case completed_video statusData of
                      Some v \<Rightarrow>
                        (let wr = effect_rerun pr (retryCount w) w1;
                             w2 = updatePostWithVideo pr (snd ev) (url v) (s3 v) wr;
                             w3 = w2\<lparr>readyCalls := readyCalls w2 @ [url v]\<rparr>
                         in Inr (w3\<lparr>isPolling := False\<rparr>))
                    | None \<Rightarrow>
                        (if vs_status statusData = Failed then
                           Inr (w1\<lparr>error := Some (case vs_error statusData of
                                                      None \<Rightarrow> ''Video generation failed''
                                                    | Some m \<Rightarrow> (if m = [] then ''Video generation failed'' else m)),
                                    isPolling := False\<rparr>)
                         else Inr w1))))))"

text \<open>
  \<open>pollVideoStatus\<close> after its request has been issued: the \<open>try\<close> block runs and the
  \<open>catch\<close> block handles what it throws.
\<close>

definition poll_response :: "props \<Rightarrow> fetch_outcome \<times> update_outcome \<Rightarrow> poller \<Rightarrow> poller" where
  "poll_response pr ev w =
     (case poll_try pr ev w of
        Inr w' \<Rightarrow> w'
      | Inl err \<Rightarrow>
          (if retryCount w \<ge> 10 then
             w\<lparr>error := Some (case err of
                                ErrorObj m \<Rightarrow> m
                              | NonError \<Rightarrow> ''Failed to check video status after multiple retries''),
                isPolling := False\<rparr>
           else w\<lparr>retryCount := retryCount w + 1\<rparr>))"

text \<open>\<open>pollVideoStatus\<close>: the request is issued and its response handled.\<close>

definition pollVideoStatus :: "props \<Rightarrow> fetch_outcome \<times> update_outcome \<Rightarrow> poller \<Rightarrow> poller" where
  "pollVideoStatus pr ev w = poll_response pr ev (poll_request pr w)"

text \<open>
  The next outcome offered by the environment. Under the effect's guard
  \<open>if (!jobId || !isPolling) return\<close> a poll runs: a request is issued and the outcome is its
  response. With an empty job id or after polling has been switched off no timer exists and
  no request is issued; then the outcome is the response to the request still in flight, if
  there is one, and the suspended call that issued it handles it; otherwise the outcome is
  not consumed. The response to a request issued by \<open>effect_rerun\<close> is thus handled after
  the call that was running has finished.
\<close>

definition poll_once :: "props \<Rightarrow> fetch_outcome \<times> update_outcome \<Rightarrow> poller \<Rightarrow> poller" where
  "poll_once pr ev w =
     (if jobId pr = [] \<or> \<not> isPolling w then
        (if inFlight w then poll_response pr ev (w\<lparr>inFlight := False\<rparr>) else w)
      else pollVideoStatus pr ev w)"

text \<open>The polling loop over the outcomes of successive requests.\<close>

fun run_poller :: "props \<Rightarrow> (fetch_outcome \<times> update_outcome) list \<Rightarrow> poller \<Rightarrow> poller" where
  "run_poller pr [] w = w"
| "run_poller pr (ev # evs) w = run_poller pr evs (poll_once pr ev w)"

subsection \<open>Example inputs\<close>

definition ex_props :: props where
  "ex_props = \<lparr>postId = 7, jobId = ''job-1''\<rparr>"

definition ex_404 :: response where
  "ex_404 = \<lparr>http_status = 404, statusText = ''Not Found'', json = Inl NonError\<rparr>"

definition ex_500 :: response where
  "ex_500 = \<lparr>http_status = 500, statusText = ''Internal Server Error'', json = Inl NonError\<rparr>"

definition ex_processing :: VideoStatus where
  "ex_processing =
     \<lparr>vs_jobId = ''job-1'', vs_status = Processing, vs_createdAt = ''t0'', vs_updatedAt = ''t1'',
      vs_video = None, vs_error = None\<rparr>"

definition ex_completed :: VideoStatus where
  "ex_completed =
     \<lparr>vs_jobId = ''job-1'', vs_status = Completed, vs_createdAt = ''t0'', vs_updatedAt = ''t2'',
      vs_video = Some \<lparr>s3 = ''s3://v/1.mp4'', url = ''https://cdn/v/1.mp4''\<rparr>, vs_error = None\<rparr>"

definition ex_ok :: "VideoStatus \<Rightarrow> response" where
  "ex_ok sd = \<lparr>http_status = 200, statusText = ''OK'', json = Inr sd\<rparr>"

definition ex_db :: "nat \<rightharpoonup> video_entry list" where
  "ex_db = [7 \<mapsto> []]"

section \<open>The job submitter (src/queries/post/sendJobRequest.ts)\<close>

subsection \<open>JavaScript strings\<close>

text \<open>
  A JavaScript string is a sequence of UTF-16 code units; \<open>length\<close> counts code units.
  \<open>trim()\<close> removes the white space and line terminator code units of ECMAScript from
  both ends.
\<close>

type_synonym code_unit = "16 word"
type_synonym js_string = "code_unit list"

definition js_whitespace :: "code_unit \<Rightarrow> bool" where
  "js_whitespace c =
     (c \<in> {0x0009, 0x000A, 0x000B, 0x000C, 0x000D, 0x0020, 0x00A0, 0x1680,
            0x2000, 0x2001, 0x2002, 0x2003, 0x2004, 0x2005, 0x2006, 0x2007, 0x2008, 0x2009,
            0x200A, 0x2028, 0x2029, 0x202F, 0x205F, 0x3000, 0xFEFF})"

definition trim :: "js_string \<Rightarrow> js_string" where
  "trim s = rev (dropWhile js_whitespace (rev (dropWhile js_whitespace s)))"

text \<open>The code units of an ASCII literal.\<close>

definition js_of :: "string \<Rightarrow> js_string" where
  "js_of s = map (\<lambda>c. of_nat (of_char c)) s"


text \<open>\<open>a || b\<close> on strings: \<open>a\<close> unless it is missing or empty.\<close>

definition or_else :: "string option \<Rightarrow> string \<Rightarrow> string" where
  "or_else a b = (case a of None \<Rightarrow> b | Some m \<Rightarrow> (if m = [] then b else m))"

subsection \<open>Data\<close>

record wallet =
  privateKey :: "string option"

text \<open>The fields of \<open>ExtendedUser\<close> that the submitter reads.\<close>

record user =
  user_id :: "string option"
  creditBalance :: int
  user_wallet :: "wallet option"

record inputs =
  Prompt :: js_string
  Seed :: int
  n :: int

record payload =
  pl_inputs :: inputs
  author :: string
  category :: string

record request =
  endpoint :: string
  body :: payload
  headers :: "(string \<times> string) list"

text \<open>\<open>response.data\<close> of a resolved request: \<open>{status, data: {jobId, postId, ...}}\<close>;
  \<open>rd_status\<close> is the truthiness of \<open>status\<close>.\<close>

record job_data =
  jd_jobId :: "string option"
  jd_postId :: "nat option"
  estimated_processing_time :: "string option"

record response_data =
  rd_status :: bool
  rd_data :: "job_data option"

text \<open>An axios error: its \<open>code\<close>, its \<open>response\<close> (status and \<open>data.message\<close>) and
  its \<open>message\<close>.\<close>

record error_response =
  er_status :: nat
  er_message :: "string option"

record axios_error =
  ax_code :: "string option"
  ax_response :: "error_response option"
  ax_message :: string

datatype caught = AxiosError axios_error | OtherError string

datatype post_outcome = Resolves "response_data option" | Rejects caught

record toast =
  t_message :: string
  t_description :: "string option"
  t_duration :: "nat option"

text \<open>The arguments of \<open>sendJobRequest\<close>; \<open>None\<close> is an argument left out, which takes
  its default (\<open>imageCount = 4\<close>, \<open>mediaType = 'image'\<close>).\<close>

record job_args =
  prompt :: js_string
  arg_user :: "user option"
  imageCount :: "int option"
  arg_mediaType :: "media_type option"

text \<open>What \<open>sendJobRequest\<close> resolves to on the video path.\<close>

record job_ids =
  res_jobId :: string
  res_postId :: "nat option"

text \<open>
  What the submitter and the job hook act on: the in-flight store, the toasts shown, the
  requests posted, and the hook's own cells (\<open>isGenerating\<close>, \<open>progress\<close>, the last observed
  post id of the polling closure), the invalidated query keys and the routes pushed.
  Console and error-tracker logging is not recorded.
\<close>

record client =
  store :: GenerationState
  toasts :: "toast list"
  posted :: "request list"
  isGenerating :: bool
  progress :: nat
  latestPostId :: "nat option"
  invalidated :: "string list list"
  pushed :: "string list"

subsection \<open>Operations\<close>

definition media_name :: "media_type \<Rightarrow> string" where
  "media_name m = (case m of ImageMedia \<Rightarrow> ''image'' | VideoMedia \<Rightarrow> ''video'')"

definition toast_error :: "string \<Rightarrow> client \<Rightarrow> client" where
  "toast_error m w =
     w\<lparr>toasts := toasts w @ [\<lparr>t_message = m, t_description = None, t_duration = None\<rparr>]\<rparr>"

text \<open>The message chosen in both \<open>catch\<close> handlers.\<close>

definition errorMessage :: "media_type \<Rightarrow> caught \<Rightarrow> string" where
  "errorMessage mt e =
     (case e of
        OtherError _ \<Rightarrow> ''Failed to start '' @ media_name mt @ '' generation''
      | AxiosError a \<Rightarrow>
          (if ax_code a = Some ''ECONNABORTED'' then ''Request timeout - please try again''
           else if map_option er_status (ax_response a) = Some 401 then
             ''Please log in to generate '' @ media_name mt @ ''s''
           else if map_option er_status (ax_response a) = Some 400 then
             or_else (case ax_response a of None \<Rightarrow> None | Some r \<Rightarrow> er_message r)
                     ''Invalid request''
           else if map_option er_status (ax_response a) = Some 500 then
             ''Server error - please try again''
           else
             or_else (case ax_response a of None \<Rightarrow> None | Some r \<Rightarrow> er_message r)
                     (ax_message a)))"

text \<open>The body shared by both \<open>catch\<close> handlers: stop, then toast the message.\<close>

definition on_request_error ::
  "(GenerationState \<Rightarrow> GenerationState) \<Rightarrow> media_type \<Rightarrow> caught \<Rightarrow> client \<Rightarrow> client" where
  "on_request_error stop mt e w =
     (let w1 = w\<lparr>store := stop (store w)\<rparr>
      in w1\<lparr>toasts := toasts w1 @
               [\<lparr>t_message = errorMessage mt e,
                 t_description = Some ''Please check your connection and try again'',
                 t_duration = Some 5000\<rparr>]\<rparr>)"

text \<open>The headers: \<open>Authorization\<close> is added when the credit balance is not positive and
  the wallet has a non-empty private key.\<close>

definition request_headers :: "user \<Rightarrow> (string \<times> string) list" where
  "request_headers u =
     [(''Content-Type'', ''application/json'')] @
     (case user_wallet u of
        None \<Rightarrow> []
      | Some wl \<Rightarrow>
          (case privateKey wl of
             None \<Rightarrow> []
           | Some k \<Rightarrow>
               (if creditBalance u \<le> 0 \<and> k \<noteq> [] then [(''Authorization'', ''Bearer '' @ k)]
                else [])))"

text \<open>
  \<open>sendJobRequest\<close>. \<open>stop\<close> is the \<open>stopGeneration\<close> callback, \<open>seed\<close> the value drawn by
  \<open>random.int(1e3, 1e8)\<close>, and \<open>out\<close> the outcome of the request, which only the video path
  awaits. The result is the rejection (\<open>Inl\<close>) or the value (\<open>Inr\<close>, \<open>None\<close> for
  \<open>undefined\<close>) of the returned promise.
\<close>

definition sendJobRequest ::
  "(GenerationState \<Rightarrow> GenerationState) \<Rightarrow> job_args \<Rightarrow> int \<Rightarrow> post_outcome \<Rightarrow> client
     \<Rightarrow> (caught + job_ids option) \<times> client" where
  "sendJobRequest stop args seed out w =
     (let mt = (case arg_mediaType args of None \<Rightarrow> ImageMedia | Some m \<Rightarrow> m);
          ic = (case imageCount args of None \<Rightarrow> 4 | Some c \<Rightarrow> c)
      in
      (case arg_user args of
         None \<Rightarrow>
           (Inr None,
            (toast_error (''Please log in to generate '' @ media_name mt @ ''s'') w)
              \<lparr>store := stop (store w)\<rparr>)
       | Some u \<Rightarrow>
           (if user_id u = None \<or> user_id u = Some [] then
              (Inr None, (toast_error ''User authentication error'' w)\<lparr>store := stop (store w)\<rparr>)
            else if prompt args = [] \<or> length (trim (prompt args)) = 0 then
              (Inr None, (toast_error ''Please enter a prompt'' w)\<lparr>store := stop (store w)\<rparr>)
            else if length (prompt args) > 1000 then
              (Inr None,
               (toast_error ''Prompt too long (max 1000 characters)'' w)\<lparr>store := stop (store w)\<rparr>)
            else
              (let requestPayload =
                     \<lparr>pl_inputs =
                        \<lparr>Prompt = trim (prompt args), Seed = seed,
                         n = (if mt = VideoMedia then 1 else min (max ic 1) 10)\<rparr>,
                      author = (case user_id u of None \<Rightarrow> [] | Some i \<Rightarrow> i),
                      category = ''GENERATION''\<rparr>;
                   apiEndpoint = (if mt = VideoMedia then ''/api/videos/generations''
                                  else ''/api/images/generations'');
                   w1 = w\<lparr>posted := posted w @
                          [\<lparr>endpoint = apiEndpoint, body = requestPayload,
                            headers = request_headers u\<rparr>]\<rparr>
               in
               (if mt = VideoMedia then
                  (case (case out of
                           Rejects e \<Rightarrow> Inl e
                         | Resolves d \<Rightarrow>
                             (case d of
                                None \<Rightarrow> Inl (OtherError ''Invalid response from video generation API'')
                              | Some rd \<Rightarrow>
                                  (case rd_data rd of
                                     None \<Rightarrow> Inl (OtherError ''Invalid response from video generation API'')
                                   | Some jd \<Rightarrow>
                                       (case jd_jobId jd of
                                          None \<Rightarrow> Inl (OtherError ''Invalid response from video generation API'')
                                        | Some j \<Rightarrow>
                                            (if rd_status rd \<and> j \<noteq> [] then
                                               Inr (Some \<lparr>res_jobId = j, res_postId = jd_postId jd\<rparr>)
                                             else Inl (OtherError ''Invalid response from video generation API'')))))) of
                     Inr res \<Rightarrow> (Inr res, w1)
                   | Inl e \<Rightarrow> (Inl e, on_request_error stop mt e w1))
                else (Inr None, w1))))))"

text \<open>
  The image path's handlers, run when the fire-and-forget request settles: \<open>then\<close> only
  logs the estimated processing time; \<open>catch\<close> stops and toasts. On this path
  \<open>mediaType\<close> is \<open>'image'\<close>.
\<close>

definition image_request_settled ::
  "(GenerationState \<Rightarrow> GenerationState) \<Rightarrow> post_outcome \<Rightarrow> client \<Rightarrow> client" where
  "image_request_settled stop out w =
     (case out of
        Resolves d \<Rightarrow> w
      | Rejects e \<Rightarrow> on_request_error stop ImageMedia e w)"

section \<open>Row polling in the job hook (src/hooks/useCreateJob.tsx)\<close>

text \<open>The result of the latest-post query: it throws, or yields \<open>data\<close>, the id of the
  author's most recent post, or null.\<close>

datatype query_outcome = QueryThrows | QueryData "nat option"

text \<open>\<open>getLatestPost\<close>, run once when the effect starts with \<open>latestPostId = null\<close>.\<close>

definition getLatestPost :: "nat option \<Rightarrow> client \<Rightarrow> client" where
  "getLatestPost d w = (case d of None \<Rightarrow> w | Some i \<Rightarrow> w\<lparr>latestPostId := Some i\<rparr>)"

text \<open>The interval callback.\<close>

definition row_poll_tick ::
  "(GenerationState \<Rightarrow> GenerationState) \<Rightarrow> query_outcome \<Rightarrow> client \<Rightarrow> client" where
  "row_poll_tick stop q w =
     (case q of
        QueryThrows \<Rightarrow> w
      | QueryData None \<Rightarrow> w
      | QueryData (Some i) \<Rightarrow>
          (if Some i \<noteq> latestPostId w then
             w\<lparr>latestPostId := Some i, isGenerating := False, progress := 100,
               store := stop (store w),
               invalidated := invalidated w @ [[''posts'']],
               pushed := pushed w @ [''/home/photo/'' @ show_nat i]\<rparr>
           else w))"

text \<open>The interval exists only while a user is present and \<open>isGenerating\<close> holds.\<close>

definition row_poll_once ::
  "(GenerationState \<Rightarrow> GenerationState) \<Rightarrow> user option \<Rightarrow> query_outcome \<Rightarrow> client \<Rightarrow> client" where
  "row_poll_once stop usr q w =
     (if usr = None \<or> \<not> isGenerating w then w else row_poll_tick stop q w)"


subsection \<open>Example inputs\<close>

definition ex_user :: user where
  "ex_user = \<lparr>user_id = Some ''user-1'', creditBalance = 5, user_wallet = None\<rparr>"

definition ex_args :: "media_type \<Rightarrow> int option \<Rightarrow> job_args" where
  "ex_args mt c =
     \<lparr>prompt = js_of ''a red fox in snow'', arg_user = Some ex_user, imageCount = c,
      arg_mediaType = Some mt\<rparr>"

definition ex_blank_args :: job_args where
  "ex_blank_args =
     \<lparr>prompt = [0x20, 0x09, 0x3000], arg_user = Some ex_user, imageCount = None,
      arg_mediaType = None\<rparr>"

definition ex_client :: client where
  "ex_client =
     \<lparr>store = \<lparr>isActive = True, mediaType = ImageMedia\<rparr>, toasts = [], posted = [],
      isGenerating = True, progress = 0, latestPostId = Some 41, invalidated = [], pushed = []\<rparr>"

definition ex_503 :: axios_error where
  "ex_503 =
     \<lparr>ax_code = Some ''ERR_BAD_RESPONSE'',
      ax_response = Some \<lparr>er_status = 503, er_message = None\<rparr>,
      ax_message = ''Request failed with status code 503''\<rparr>"

definition ex_401 :: axios_error where
  "ex_401 =
     \<lparr>ax_code = Some ''ERR_BAD_REQUEST'',
      ax_response = Some \<lparr>er_status = 401, er_message = Some ''Unauthorized''\<rparr>,
      ax_message = ''Request failed with status code 401''\<rparr>"

definition ex_job :: response_data where
  "ex_job =
     \<lparr>rd_status = True,
      rd_data = Some \<lparr>jd_jobId = Some ''job-1'', jd_postId = Some 7,
                       estimated_processing_time = None\<rparr>\<rparr>"

section \<open>Gallery photos (src/app/home/formattedPhotos.ts)\<close>

subsection \<open>Data\<close>

text \<open>One element of the \<open>ipfsImages\<close> column; a missing key is \<open>None\<close>.\<close>

record ipfs_image =
  img_hash :: "string option"
  fileNames :: "string list option"

text \<open>
  The \<open>video_data\<close> column is JSON. An object is given by the keys the code reads. The
  code asks \<open>'hash' in videoData\<close>, so for \<open>hash\<close> a missing key (\<open>None\<close>) differs from a
  key that is present with the value \<open>null\<close>; for the other keys, which are only tested
  for truthiness, a missing key and \<open>null\<close> are both \<open>None\<close>. A value that is not an array
  is a falsy primitive (\<open>false\<close>, \<open>0\<close>, the empty string), a truthy primitive, or an
  object; an array holds such values or \<open>null\<close> (an array inside an array behaves as an
  object without these keys).
\<close>

datatype hash_value = HashNull | HashText string

record video_obj =
  v_hash :: "hash_value option"
  v_fileNames :: "string list option"
  v_url :: "string option"
  v_src :: "string option"

datatype video_value = VFalsy | VTruthy | VObject video_obj

datatype video_json = VOne video_value | VMany "video_value option list"

text \<open>The columns of \<open>Post\<close> that the formatter reads; \<open>None\<close> is \<open>null\<close>.\<close>

record post =
  p_id :: nat
  p_author :: string
  p_media_type :: "string option"
  p_ipfsImages :: "ipfs_image list option"
  p_video_data :: "video_json option"
  p_prompt :: string
  p_category :: string
  p_cpu :: int
  p_createdAt :: string
  p_device :: string
  p_isDraft :: bool
  p_isPinned :: bool
  p_isPrivate :: bool
  p_caption :: "string option"
  p_seed :: int

record page =
  page_data :: "post list"

text \<open>
  The photo record. Its \<open>height\<close> and the heights in its \<open>srcSet\<close> are computed in
  double-precision floating point from the chosen aspect ratio; they are not part of this
  record. \<open>width\<close> is an integer table lookup.
\<close>

record photo =
  ph_id :: string
  ph_src :: string
  ph_key :: string
  ph_alt :: string
  ph_width :: nat
  ph_srcSet_widths :: "nat list"
  ph_prompt :: string
  ph_author :: string
  ph_category :: string
  ph_cpu :: int
  ph_createdAt :: string
  ph_device :: string
  ph_isDraft :: bool
  ph_isPinned :: bool
  ph_isPrivate :: bool
  ph_caption :: "string option"
  ph_seed :: int
  ph_media_type :: "string option"

text \<open>
  What \<open>getImage\<close> takes from outside this file: \<open>appConfig\<close>, the fallback image and
  \<open>isHighQualityImage\<close> from \<open>@/utils\<close>.
\<close>

record app_config =
  isDevelopment :: bool
  lighthouse_gateway :: string
  cloudflare_url :: string
  fallbackImage :: string
  isHighQualityImage :: "string \<Rightarrow> bool"

subsection \<open>Operations\<close>

definition breakpoints :: "nat list" where
  "breakpoints = [1080, 640, 384, 256, 128, 96, 64, 48]"

definition startsWith :: "string \<Rightarrow> string \<Rightarrow> bool" where
  "startsWith s p = (take (length p) s = p)"

text \<open>\<open>xs?.[0]\<close> when it is a non-empty string.\<close>

definition first_name :: "string list option \<Rightarrow> string option" where
  "first_name fs =
     (case fs of
        None \<Rightarrow> None
      | Some [] \<Rightarrow> None
      | Some (f # _) \<Rightarrow> (if f = [] then None else Some f))"

text \<open>\<open>getImage\<close>; both environments build the same URL.\<close>

definition getImage :: "app_config \<Rightarrow> string option \<Rightarrow> string \<Rightarrow> string \<Rightarrow> string" where
  "getImage cfg cidOrUrl fileName author' =
     (case cidOrUrl of
        None \<Rightarrow> fallbackImage cfg
      | Some c \<Rightarrow>
          (if c = [] then fallbackImage cfg
           else
             (let isLighthouseCID = \<not> startsWith c ''http'';
                  imageOptions = (if isLighthouseCID \<and> isHighQualityImage cfg fileName
                                  then ''?h=300&w=300'' else '''')
              in
              (if isDevelopment cfg then
                 (if isLighthouseCID then lighthouse_gateway cfg @ c @ ''/'' @ fileName @ imageOptions
                  else cloudflare_url cfg @ ''/'' @ author' @ ''/'' @ fileName)
               else
                 (if isLighthouseCID then lighthouse_gateway cfg @ c @ ''/'' @ fileName @ imageOptions
                  else cloudflare_url cfg @ ''/'' @ author' @ ''/'' @ fileName)))))"

text \<open>Truthiness of \<open>post.video_data\<close>: objects and arrays, also empty ones, are truthy.\<close>

definition video_data_truthy :: "video_json option \<Rightarrow> bool" where
  "video_data_truthy vd =
     (case vd of
        None \<Rightarrow> False
      | Some (VOne VFalsy) \<Rightarrow> False
      | Some _ \<Rightarrow> True)"

text \<open>\<open>Array.isArray(post.video_data) ? post.video_data[0] : post.video_data\<close>;
  \<open>None\<close> is \<open>null\<close> or \<open>undefined\<close>.\<close>

definition first_video :: "video_json \<Rightarrow> video_value option" where
  "first_video vd =
     (case vd of
        VOne v \<Rightarrow> Some v
      | VMany [] \<Rightarrow> None
      | VMany (x # _) \<Rightarrow> x)"

text \<open>The string under the \<open>hash\<close> key, if the key is present and holds one.\<close>

definition hash_text :: "hash_value option \<Rightarrow> string option" where
  "hash_text h = (case h of Some (HashText t) \<Rightarrow> Some t | _ \<Rightarrow> None)"

text \<open>
  \<open>getMediaUrl\<close>. When the \<open>hash\<close> key is present but is not a full URL (it is \<open>null\<close>, empty,
  or a content id) and a first file name exists, the hash goes to \<open>getImage\<close>, which returns
  the fallback image for \<open>null\<close> and for the empty string.
\<close>

definition getMediaUrl :: "app_config \<Rightarrow> post \<Rightarrow> string" where
  "getMediaUrl cfg p =
     (if p_media_type p = Some ''VIDEO'' \<and> video_data_truthy (p_video_data p) then
        (case (case p_video_data p of None \<Rightarrow> None | Some vd \<Rightarrow> first_video vd) of
           Some (VObject videoData) \<Rightarrow>
             (let fallback = or_else (v_url videoData)
                               (or_else (v_src videoData)
                                  (or_else (hash_text (v_hash videoData)) ''''))
              in
              (case v_hash videoData of
                 None \<Rightarrow> fallback
               | Some h \<Rightarrow>
                   (case (case h of
                            HashNull \<Rightarrow> None
                          | HashText videoUrl \<Rightarrow>
                              (if videoUrl \<noteq> [] \<and> (startsWith videoUrl ''http://''
                                                     \<or> startsWith videoUrl ''https://'')
                               then Some videoUrl else None)) of
                      Some videoUrl \<Rightarrow> videoUrl
                    | None \<Rightarrow>
                        (case first_name (v_fileNames videoData) of
                           Some f \<Rightarrow> getImage cfg (hash_text (Some h)) f (p_author p)
                         | None \<Rightarrow> fallback))))
         | _ \<Rightarrow> '''')
      else
        (case p_ipfsImages p of
           None \<Rightarrow> ''''
         | Some [] \<Rightarrow> ''''
         | Some (img # _) \<Rightarrow>
             (case img_hash img of
                None \<Rightarrow> ''''
              | Some h \<Rightarrow>
                  (if h = [] then ''''
                   else
                     (case first_name (fileNames img) of
                        None \<Rightarrow> ''''
                      | Some f \<Rightarrow> getImage cfg (Some h) f (p_author p))))))"

text \<open>\<open>post.ipfsImages?.[0]?.hash && post.ipfsImages?.[0]?.fileNames?.[0]\<close>\<close>

definition hasValidImage :: "post \<Rightarrow> bool" where
  "hasValidImage p =
     (case p_ipfsImages p of
        None \<Rightarrow> False
      | Some [] \<Rightarrow> False
      | Some (img # _) \<Rightarrow>
          (case img_hash img of
             None \<Rightarrow> False
           | Some h \<Rightarrow> h \<noteq> [] \<and> first_name (fileNames img) \<noteq> None))"

text \<open>\<open>post.media_type === 'VIDEO' && post.video_data\<close>\<close>

definition hasValidVideo :: "post \<Rightarrow> bool" where
  "hasValidVideo p = (p_media_type p = Some ''VIDEO'' \<and> video_data_truthy (p_video_data p))"

definition baseWidths :: "nat list" where
  "baseWidths = [300, 320, 340, 360, 380, 400]"

text \<open>The callback of \<open>page.data.map\<close>: \<open>None\<close> is the \<open>null\<close> it returns for a post
  without valid media.\<close>

definition gallery_photo :: "app_config \<Rightarrow> post \<Rightarrow> nat \<Rightarrow> photo option" where
  "gallery_photo cfg p index =
     (if \<not> hasValidImage p \<and> \<not> hasValidVideo p then None
      else
        (let mediaUrl = getMediaUrl cfg p;
             baseWidth = baseWidths ! (p_id p mod length baseWidths)
         in Some \<lparr>ph_id = show_nat (p_id p), ph_src = mediaUrl, ph_key = show_nat (p_id p),
                   ph_alt = p_prompt p, ph_width = baseWidth, ph_srcSet_widths = breakpoints,
                   ph_prompt = p_prompt p, ph_author = p_author p, ph_category = p_category p,
                   ph_cpu = p_cpu p, ph_createdAt = p_createdAt p, ph_device = p_device p,
                   ph_isDraft = p_isDraft p, ph_isPinned = p_isPinned p,
                   ph_isPrivate = p_isPrivate p, ph_caption = p_caption p, ph_seed = p_seed p,
                   ph_media_type = p_media_type p\<rparr>))"

text \<open>\<open>xs.map((x, index) => f(x, index))\<close>\<close>

definition map_index :: "('a \<Rightarrow> nat \<Rightarrow> 'b) \<Rightarrow> 'a list \<Rightarrow> 'b list" where
  "map_index f xs = map (\<lambda>(i, x). f x i) (enumerate 0 xs)"

text \<open>\<open>pages.flatMap(page => page.data.map(...)).filter(Boolean)\<close>\<close>

definition formattedPhotosForGallery :: "app_config \<Rightarrow> page list \<Rightarrow> photo list" where
  "formattedPhotosForGallery cfg pages =
     List.map_filter (\<lambda>x. x)
       (concat (map (\<lambda>pg. map_index (gallery_photo cfg) (page_data pg)) pages))"

subsection \<open>Example inputs\<close>

definition ex_config :: app_config where
  "ex_config =
     \<lparr>isDevelopment = False, lighthouse_gateway = ''https://gateway/ipfs/'',
      cloudflare_url = ''https://r2.example'', fallbackImage = ''/fallback.png'',
      isHighQualityImage = (\<lambda>f. False)\<rparr>"

definition ex_post :: "nat \<Rightarrow> string option \<Rightarrow> ipfs_image list option \<Rightarrow> video_json option \<Rightarrow> post" where
  "ex_post i mt imgs vd =
     \<lparr>p_id = i, p_author = ''user-1'', p_media_type = mt, p_ipfsImages = imgs,
      p_video_data = vd, p_prompt = ''a red fox in snow'', p_category = ''GENERATION'',
      p_cpu = 0, p_createdAt = ''t0'', p_device = ''d'', p_isDraft = False, p_isPinned = False,
      p_isPrivate = False, p_caption = None, p_seed = 4242\<rparr>"

definition ex_pages :: "page list" where
  "ex_pages =
     [\<lparr>page_data =
         [ex_post 1 (Some ''IMAGE'') (Some [\<lparr>img_hash = Some ''Qm1'', fileNames = Some [''0.png'']\<rparr>]) None,
          ex_post 2 (Some ''IMAGE'') (Some []) None,
          ex_post 3 (Some ''VIDEO'') None
            (Some (VMany [Some (VObject \<lparr>v_hash = Some (HashText ''https://cdn/v/3.mp4''),
                                          v_fileNames = None,
                                          v_url = Some ''https://cdn/v/3.mp4'', v_src = None\<rparr>)]))]\<rparr>,
      \<lparr>page_data = [ex_post 4 (Some ''VIDEO'') None None]\<rparr>]"

section \<open>Properties of the in-flight store\<close>

text \<open>
  Claim C10. For every state of the in-flight store, startGeneration sets isActive to true
  and sets mediaType to its argument, or to the image type when it is called without argument;
  stopGeneration sets isActive to false and leaves mediaType as it was.
\<close>

theorem store_start_stop:
  "isActive (startGeneration (Some m) s) = True
   \<and> mediaType (startGeneration (Some m) s) = m
   \<and> isActive (startGeneration None s) = True
   \<and> mediaType (startGeneration None s) = ImageMedia
   \<and> isActive (stopGeneration s) = False
   \<and> mediaType (stopGeneration s) = mediaType s"
  by (simp add: startGeneration_def stopGeneration_def)


section \<open>Properties of video status polling\<close>

subsection \<open>Single polls\<close>

lemma poll_once_error_below_5:
  assumes "jobId pr \<noteq> []" and "isPolling w" and "\<not> response_ok r" and "retryCount w < 5"
  shows "poll_once pr (FetchResolves r, u) w =
           w\<lparr>requests := requests w @ [status_endpoint pr], retryCount := retryCount w + 1\<rparr>"
  using assms
  by (simp add: poll_once_def pollVideoStatus_def poll_response_def poll_request_def
        poll_try_def Let_def)

lemma poll_once_404_below_10:
  assumes "jobId pr \<noteq> []" and "isPolling w" and "http_status r = 404" and "retryCount w < 10"
  shows "poll_once pr (FetchResolves r, u) w =
           w\<lparr>requests := requests w @ [status_endpoint pr], retryCount := retryCount w + 1\<rparr>"
  using assms
  by (simp add: poll_once_def pollVideoStatus_def poll_response_def poll_request_def
        poll_try_def Let_def response_ok_def)

lemma poll_once_error_from_10:
  assumes "jobId pr \<noteq> []" and "isPolling w" and "\<not> response_ok r" and "10 \<le> retryCount w"
  shows "poll_once pr (FetchResolves r, u) w =
           w\<lparr>requests := requests w @ [status_endpoint pr],
              error := Some (''Status check failed after '' @ show_nat (retryCount w)
                             @ '' retries: '' @ statusText r),
              isPolling := False\<rparr>"
  using assms
  by (simp add: poll_once_def pollVideoStatus_def poll_response_def poll_request_def
        poll_try_def Let_def)

subsection \<open>Runs of polls\<close>

lemma run_poller_append:
  "run_poller pr (xs @ ys) w = run_poller pr ys (run_poller pr xs w)"
  by (induction xs arbitrary: w) auto

lemma run_poller_stopped:
  "\<not> isPolling w \<Longrightarrow> \<not> inFlight w \<Longrightarrow> run_poller pr evs w = w"
  by (induction evs) (auto simp: poll_once_def)

lemma run_poller_404s:
  assumes "jobId pr \<noteq> []" and "isPolling w" and "http_status r = 404"
    and "retryCount w + k \<le> 10"
  shows "run_poller pr (replicate k (FetchResolves r, u)) w =
           w\<lparr>requests := requests w @ replicate k (status_endpoint pr),
              retryCount := retryCount w + k\<rparr>"
  using assms
proof (induction k arbitrary: w)
  case 0
  then show ?case by simp
next
  case (Suc k)
  have "retryCount w < 10" using Suc.prems by simp
  then have st: "poll_once pr (FetchResolves r, u) w =
      w\<lparr>requests := requests w @ [status_endpoint pr], retryCount := retryCount w + 1\<rparr>"
    (is "_ = ?w'")
    using poll_once_404_below_10 Suc.prems by blast
  have "run_poller pr (replicate k (FetchResolves r, u)) ?w' =
      ?w'\<lparr>requests := requests ?w' @ replicate k (status_endpoint pr),
          retryCount := retryCount ?w' + k\<rparr>"
    by (rule Suc.IH) (use Suc.prems in simp_all)
  then show ?case by (simp add: st)
qed

lemma run_poller_errors:
  assumes "jobId pr \<noteq> []" and "isPolling w" and "\<not> response_ok r"
    and "retryCount w + k \<le> 5"
  shows "run_poller pr (replicate k (FetchResolves r, u)) w =
           w\<lparr>requests := requests w @ replicate k (status_endpoint pr),
              retryCount := retryCount w + k\<rparr>"
  using assms
proof (induction k arbitrary: w)
  case 0
  then show ?case by simp
next
  case (Suc k)
  have "retryCount w < 5" using Suc.prems by simp
  then have st: "poll_once pr (FetchResolves r, u) w =
      w\<lparr>requests := requests w @ [status_endpoint pr], retryCount := retryCount w + 1\<rparr>"
    (is "_ = ?w'")
    using poll_once_error_below_5 Suc.prems by blast
  have "run_poller pr (replicate k (FetchResolves r, u)) ?w' =
      ?w'\<lparr>requests := requests ?w' @ replicate k (status_endpoint pr),
          retryCount := retryCount ?w' + k\<rparr>"
    by (rule Suc.IH) (use Suc.prems in simp_all)
  then show ?case by (simp add: st)
qed

subsection \<open>The retry budget\<close>

text \<open>
  Claim C1, as stated, at a concrete input: after 10 consecutive 404 responses from the
  initial state the poller is still polling and has no error, and so it is after 5
  consecutive responses with status 500.
\<close>

theorem poll_budget_counterexample:
  "isPolling (run_poller ex_props (replicate 10 (FetchResolves ex_404, UpdateApplied))
                (initial_poller ex_db))
   \<and> error (run_poller ex_props (replicate 10 (FetchResolves ex_404, UpdateApplied))
                (initial_poller ex_db)) = None
   \<and> isPolling (run_poller ex_props (replicate 5 (FetchResolves ex_500, UpdateApplied))
                (initial_poller ex_db))
   \<and> error (run_poller ex_props (replicate 5 (FetchResolves ex_500, UpdateApplied))
                (initial_poller ex_db)) = None"
  by code_simp

text \<open>
  Claim C1, amended. From a polling state with retry count zero: through any run of at most
  10 consecutive 404 responses the poller keeps polling, its error unchanged and its retry
  count the length of the run, and the 11th consecutive 404 response sets the terminal error
  "Status check failed after 10 retries: ..." and stops polling; through any run of at most 5
  consecutive error responses of any status it keeps polling in the same way.
\<close>

theorem poll_retry_budget:
  assumes "jobId pr \<noteq> []" and "isPolling w" and "retryCount w = 0" and "\<not> response_ok r"
  shows "(http_status r = 404 \<longrightarrow>
            (\<forall>k\<le>10. isPolling (run_poller pr (replicate k (FetchResolves r, u)) w)
                    \<and> error (run_poller pr (replicate k (FetchResolves r, u)) w) = error w
                    \<and> retryCount (run_poller pr (replicate k (FetchResolves r, u)) w) = k)
            \<and> \<not> isPolling (run_poller pr (replicate 11 (FetchResolves r, u)) w)
            \<and> error (run_poller pr (replicate 11 (FetchResolves r, u)) w) =
                Some (''Status check failed after 10 retries: '' @ statusText r))
         \<and> (\<forall>k\<le>5. isPolling (run_poller pr (replicate k (FetchResolves r, u)) w)
                    \<and> error (run_poller pr (replicate k (FetchResolves r, u)) w) = error w
                    \<and> retryCount (run_poller pr (replicate k (FetchResolves r, u)) w) = k)"
proof (intro conjI impI allI)
  fix k :: nat
  assume "k \<le> 5"
  then have "run_poller pr (replicate k (FetchResolves r, u)) w =
      w\<lparr>requests := requests w @ replicate k (status_endpoint pr),
         retryCount := retryCount w + k\<rparr>"
    using run_poller_errors [of pr w r k u] assms by simp
  then show "isPolling (run_poller pr (replicate k (FetchResolves r, u)) w)"
    and "error (run_poller pr (replicate k (FetchResolves r, u)) w) = error w"
    and "retryCount (run_poller pr (replicate k (FetchResolves r, u)) w) = k"
    using assms by simp_all
next
  fix k :: nat
  assume nf: "http_status r = 404" and "k \<le> 10"
  then have "run_poller pr (replicate k (FetchResolves r, u)) w =
      w\<lparr>requests := requests w @ replicate k (status_endpoint pr),
         retryCount := retryCount w + k\<rparr>"
    using run_poller_404s [of pr w r k u] assms by simp
  then show "isPolling (run_poller pr (replicate k (FetchResolves r, u)) w)"
    and "error (run_poller pr (replicate k (FetchResolves r, u)) w) = error w"
    and "retryCount (run_poller pr (replicate k (FetchResolves r, u)) w) = k"
    using assms by simp_all
next
  assume nf: "http_status r = 404"
  let ?ev = "(FetchResolves r, u)"
  let ?w10 = "w\<lparr>requests := requests w @ replicate 10 (status_endpoint pr),
                retryCount := retryCount w + 10\<rparr>"
  have ten: "run_poller pr (replicate 10 ?ev) w = ?w10"
    using run_poller_404s [of pr w r 10 u] assms nf by simp
  have "replicate 11 ?ev = replicate 10 ?ev @ [?ev]"
    using replicate_add [of 10 1 ?ev] by simp
  then have "run_poller pr (replicate 11 ?ev) w = poll_once pr ?ev ?w10"
    by (simp only: run_poller_append ten run_poller.simps)
  also have "\<dots> = ?w10\<lparr>requests := requests ?w10 @ [status_endpoint pr],
        error := Some (''Status check failed after '' @ show_nat (retryCount ?w10)
                       @ '' retries: '' @ statusText r),
        isPolling := False\<rparr>"
    by (rule poll_once_error_from_10) (use assms in simp_all)
  finally have eleven: "run_poller pr (replicate 11 ?ev) w =
      ?w10\<lparr>requests := requests ?w10 @ [status_endpoint pr],
        error := Some (''Status check failed after '' @ show_nat (retryCount ?w10)
                       @ '' retries: '' @ statusText r),
        isPolling := False\<rparr>" .
  show "\<not> isPolling (run_poller pr (replicate 11 (FetchResolves r, u)) w)"
    by (simp add: eleven)
  show "error (run_poller pr (replicate 11 (FetchResolves r, u)) w) =
      Some (''Status check failed after 10 retries: '' @ statusText r)"
    using assms by (simp add: eleven show_nat.simps digit_char_def)
qed

theorem poll_retry_budget_witness:
  "jobId ex_props \<noteq> [] \<and> isPolling (initial_poller ex_db)
   \<and> retryCount (initial_poller ex_db) = 0 \<and> \<not> response_ok ex_404
   \<and> http_status ex_404 = 404
   \<and> isPolling (run_poller ex_props (replicate 10 (FetchResolves ex_404, UpdateApplied))
                  (initial_poller ex_db))
   \<and> \<not> isPolling (run_poller ex_props (replicate 11 (FetchResolves ex_404, UpdateApplied))
                  (initial_poller ex_db))
   \<and> error (run_poller ex_props (replicate 11 (FetchResolves ex_404, UpdateApplied))
                  (initial_poller ex_db)) = Some ''Status check failed after 10 retries: Not Found''"
proof -
  have h1: "jobId ex_props \<noteq> []" by (simp add: ex_props_def)
  have h2: "isPolling (initial_poller ex_db)" by (simp add: initial_poller_def)
  have h3: "retryCount (initial_poller ex_db) = 0" by (simp add: initial_poller_def)
  have h4: "\<not> response_ok ex_404" by (simp add: response_ok_def ex_404_def)
  have h5: "http_status ex_404 = 404" by (simp add: ex_404_def)
  have h6: "statusText ex_404 = ''Not Found''" by (simp add: ex_404_def)
  show ?thesis
    using poll_retry_budget [OF h1 h2 h3 h4, of UpdateApplied] h1 h2 h3 h4 h5 h6 by simp
qed


subsection \<open>The scenario 404, 404, processing, completed\<close>

lemma poll_once_in_progress:
  assumes "jobId pr \<noteq> []" and "isPolling w" and "response_ok r" and "json r = Inr sd"
    and "completed_video sd = None" and "vs_status sd \<noteq> Failed"
  shows "poll_once pr (FetchResolves r, u) w =
           w\<lparr>requests := requests w @ [status_endpoint pr], status := Some sd,
              retryCount := 0\<rparr>"
  using assms
  by (simp add: poll_once_def pollVideoStatus_def poll_response_def poll_request_def
        poll_try_def Let_def)

lemma poll_once_completed:
  assumes "jobId pr \<noteq> []" and "isPolling w" and "response_ok r" and "json r = Inr sd"
    and "completed_video sd = Some v" and "retryCount w = 0"
  shows "poll_once pr (FetchResolves r, u) w =
           (updatePostWithVideo pr u (url v) (s3 v)
              (w\<lparr>requests := requests w @ [status_endpoint pr], status := Some sd,
                 retryCount := 0\<rparr>))
           \<lparr>readyCalls := readyCalls w @ [url v], isPolling := False\<rparr>"
  using assms
  by (simp add: poll_once_def pollVideoStatus_def poll_response_def poll_request_def
           poll_try_def effect_rerun_def Let_def updatePostWithVideo_def
           split: update_outcome.splits option.splits)

text \<open>
  Claim C2. From the initial state, with a non-empty job id and an existing post row, the
  responses 404, 404, a 2xx response with status "processing" and a 2xx response with status
  "completed" and a non-empty video URL (the table update succeeding) leave the poller not
  polling, with the completed status and no error; \<open>onVideoReady\<close> has been called exactly once,
  with that URL; the post's \<open>video_data\<close> holds that URL; the retry count is 2 after the two
  404s and zero after the first 2xx response; and whatever the environment offers afterwards
  changes nothing.
\<close>

theorem poll_scenario_ready:
  assumes "jobId pr \<noteq> []" and "videoUrl \<noteq> []" and "db (postId pr) = Some old"
    and "http_status ra = 404" and "http_status rb = 404"
    and "response_ok rc" and "json rc = Inr sp" and "vs_status sp = Processing"
    and "response_ok rd" and "json rd = Inr sc" and "vs_status sc = Completed"
    and "vs_video sc = Some \<lparr>s3 = s3Url, url = videoUrl\<rparr>"
  shows "let w2 = run_poller pr [(FetchResolves ra, ua), (FetchResolves rb, ub)]
                    (initial_poller db);
             w3 = run_poller pr [(FetchResolves rc, uc)] w2;
             w4 = run_poller pr [(FetchResolves rd, UpdateApplied)] w3
         in retryCount w2 = 2 \<and> retryCount w3 = 0 \<and> isPolling w3
            \<and> \<not> isPolling w4 \<and> status w4 = Some sc \<and> error w4 = None
            \<and> retryCount w4 = 0
            \<and> readyCalls w4 = [videoUrl]
            \<and> posts w4 (postId pr) =
                 Some [\<lparr>vd_hash = videoUrl, vd_url = videoUrl, vd_s3 = s3Url\<rparr>]
            \<and> requests w4 = replicate 4 (status_endpoint pr)
            \<and> run_poller pr
                 ([(FetchResolves ra, ua), (FetchResolves rb, ub), (FetchResolves rc, uc),
                   (FetchResolves rd, UpdateApplied)] @ rest)
                 (initial_poller db) = w4"
proof -
  let ?w0 = "initial_poller db"
  let ?u = "status_endpoint pr"
  have p0: "isPolling ?w0" "retryCount ?w0 = 0" by (simp_all add: initial_poller_def)
  have s1: "poll_once pr (FetchResolves ra, ua) ?w0 =
      ?w0\<lparr>requests := requests ?w0 @ [?u], retryCount := retryCount ?w0 + 1\<rparr>"
    (is "_ = ?w1")
    by (rule poll_once_404_below_10) (use assms p0 in simp_all)
  have s2: "poll_once pr (FetchResolves rb, ub) ?w1 =
      ?w1\<lparr>requests := requests ?w1 @ [?u], retryCount := retryCount ?w1 + 1\<rparr>"
    (is "_ = ?w2")
    by (rule poll_once_404_below_10) (use assms p0 in simp_all)
  have cp: "completed_video sp = None" using assms by (simp add: completed_video_def)
  have s3: "poll_once pr (FetchResolves rc, uc) ?w2 =
      ?w2\<lparr>requests := requests ?w2 @ [?u], status := Some sp, retryCount := 0\<rparr>"
    (is "_ = ?w3")
    by (rule poll_once_in_progress) (use assms p0 cp in simp_all)
  have cc: "completed_video sc = Some \<lparr>s3 = s3Url, url = videoUrl\<rparr>"
    using assms by (simp add: completed_video_def)
  have s4: "poll_once pr (FetchResolves rd, UpdateApplied) ?w3 =
       (updatePostWithVideo pr UpdateApplied
          (url \<lparr>s3 = s3Url, url = videoUrl\<rparr>) (s3 \<lparr>s3 = s3Url, url = videoUrl\<rparr>)
          (?w3\<lparr>requests := requests ?w3 @ [?u], status := Some sc, retryCount := 0\<rparr>))
       \<lparr>readyCalls := readyCalls ?w3 @ [url \<lparr>s3 = s3Url, url = videoUrl\<rparr>],
        isPolling := False\<rparr>"
    (is "_ = ?w4")
    by (rule poll_once_completed) (use assms p0 cc in simp_all)
  have stop: "\<not> isPolling ?w4" by simp
  have idle: "\<not> inFlight ?w4"
    using assms(3) by (simp add: initial_poller_def updatePostWithVideo_def)
  have r: "run_poller pr rest ?w4 = ?w4" using run_poller_stopped [OF stop idle] .
  show ?thesis
    unfolding Let_def run_poller.simps append_Cons append_Nil s1 s2 s3 s4 r
    using assms by (simp add: initial_poller_def updatePostWithVideo_def numeral_eq_Suc)
qed

theorem poll_scenario_ready_witness:
  "jobId ex_props \<noteq> [] \<and> ''https://cdn/v/1.mp4'' \<noteq> [] \<and> ex_db (postId ex_props) = Some []
   \<and> http_status ex_404 = 404
   \<and> response_ok (ex_ok ex_processing) \<and> json (ex_ok ex_processing) = Inr ex_processing
   \<and> vs_status ex_processing = Processing
   \<and> response_ok (ex_ok ex_completed) \<and> json (ex_ok ex_completed) = Inr ex_completed
   \<and> vs_status ex_completed = Completed
   \<and> vs_video ex_completed = Some \<lparr>s3 = ''s3://v/1.mp4'', url = ''https://cdn/v/1.mp4''\<rparr>
   \<and> (let w4 = run_poller ex_props
                  [(FetchResolves ex_404, UpdateApplied), (FetchResolves ex_404, UpdateApplied),
                   (FetchResolves (ex_ok ex_processing), UpdateApplied),
                   (FetchResolves (ex_ok ex_completed), UpdateApplied)]
                  (initial_poller ex_db)
        in \<not> isPolling w4 \<and> status w4 = Some ex_completed \<and> error w4 = None
           \<and> retryCount w4 = 0 \<and> readyCalls w4 = [''https://cdn/v/1.mp4'']
           \<and> posts w4 7 = Some [\<lparr>vd_hash = ''https://cdn/v/1.mp4'', vd_url = ''https://cdn/v/1.mp4'',
                                  vd_s3 = ''s3://v/1.mp4''\<rparr>])"
proof -
  have h1: "jobId ex_props \<noteq> []" by (simp add: ex_props_def)
  have h2: "''https://cdn/v/1.mp4'' \<noteq> []" by simp
  have h3: "ex_db (postId ex_props) = Some []" by (simp add: ex_db_def ex_props_def)
  have h4: "http_status ex_404 = 404" by (simp add: ex_404_def)
  have h5: "response_ok (ex_ok ex_processing)" by (simp add: ex_ok_def response_ok_def)
  have h6: "json (ex_ok ex_processing) = Inr ex_processing" by (simp add: ex_ok_def)
  have h7: "vs_status ex_processing = Processing" by (simp add: ex_processing_def)
  have h8: "response_ok (ex_ok ex_completed)" by (simp add: ex_ok_def response_ok_def)
  have h9: "json (ex_ok ex_completed) = Inr ex_completed" by (simp add: ex_ok_def)
  have h10: "vs_status ex_completed = Completed" by (simp add: ex_completed_def)
  have h11: "vs_video ex_completed = Some \<lparr>s3 = ''s3://v/1.mp4'', url = ''https://cdn/v/1.mp4''\<rparr>"
    by (simp add: ex_completed_def)
  have p: "postId ex_props = 7" by (simp add: ex_props_def)
  show ?thesis
    using poll_scenario_ready [where pr = ex_props and db = ex_db and old = "[]"
          and ua = UpdateApplied and ub = UpdateApplied and uc = UpdateApplied
          and rest = "[]", OF h1 h2 h3 h4 h4 h5 h6 h7 h8 h9 h10 h11]
      h1 h3 h4 h5 h6 h7 h8 h9 h10 h11 p
    by (simp add: Let_def)
qed

subsection \<open>Terminal outcomes\<close>

text \<open>
  A poll that ends in the failed outcome, in the error-exhausted outcome, or in the
  completed outcome when the retry count was zero, switches polling off with no request in
  flight, and from then on nothing the environment offers changes the state.
\<close>

lemma poll_outcome_final:
  assumes "jobId pr \<noteq> []" and "isPolling w" and "\<not> inFlight w"
    and "(\<exists>r sd. fst ev = FetchResolves r \<and> response_ok r \<and> json r = Inr sd
                 \<and> ((completed_video sd \<noteq> None \<and> retryCount w = 0)
                     \<or> (completed_video sd = None \<and> vs_status sd = Failed)))
         \<or> (10 \<le> retryCount w
             \<and> (case fst ev of FetchRejects t \<Rightarrow> True
                 | FetchResolves r \<Rightarrow> \<not> response_ok r \<or> isl (json r)))"
  shows "\<not> isPolling (poll_once pr ev w)
         \<and> (\<forall>evs. run_poller pr evs (poll_once pr ev w) = poll_once pr ev w)"
proof -
  have "\<not> isPolling (poll_once pr ev w) \<and> \<not> inFlight (poll_once pr ev w)"
    using assms
    by (auto simp: poll_once_def pollVideoStatus_def poll_response_def poll_request_def
          poll_try_def effect_rerun_def Let_def isl_def updatePostWithVideo_def
        split: fetch_outcome.splits option.splits sum.splits update_outcome.splits)
  then show ?thesis by (simp add: run_poller_stopped)
qed

text \<open>
  Claim C9, at the input 404, completed, completed. The first completed response arrives
  with retry count 1: its handling resets the count before it awaits the table update, the
  effect runs again and a third request is issued. After the second outcome polling is off,
  yet three requests have been issued; the third outcome then changes the state again: the
  table update and \<open>onVideoReady\<close> are repeated.
\<close>

theorem poll_repeats_after_completed:
  "\<not> isPolling (run_poller ex_props
        [(FetchResolves ex_404, UpdateApplied),
         (FetchResolves (ex_ok ex_completed), UpdateApplied)] (initial_poller ex_db))
   \<and> requests (run_poller ex_props
        [(FetchResolves ex_404, UpdateApplied),
         (FetchResolves (ex_ok ex_completed), UpdateApplied)] (initial_poller ex_db))
       = [''/api/videos/status/job-1'', ''/api/videos/status/job-1'',
          ''/api/videos/status/job-1'']
   \<and> readyCalls (run_poller ex_props
        [(FetchResolves ex_404, UpdateApplied),
         (FetchResolves (ex_ok ex_completed), UpdateApplied)] (initial_poller ex_db))
       = [''https://cdn/v/1.mp4'']
   \<and> readyCalls (run_poller ex_props
        [(FetchResolves ex_404, UpdateApplied),
         (FetchResolves (ex_ok ex_completed), UpdateApplied),
         (FetchResolves (ex_ok ex_completed), UpdateApplied)] (initial_poller ex_db))
       = [''https://cdn/v/1.mp4'', ''https://cdn/v/1.mp4'']"
  by (simp add: poll_once_def pollVideoStatus_def poll_response_def poll_request_def
        poll_try_def effect_rerun_def status_endpoint_def completed_video_def
        updatePostWithVideo_def initial_poller_def response_ok_def
        ex_props_def ex_404_def ex_ok_def ex_completed_def ex_db_def)

section \<open>Properties of the job submitter\<close>

subsection \<open>Rejected submissions\<close>

lemma dropWhile_all_iff: "(\<forall>x\<in>set (dropWhile P s). P x) \<longleftrightarrow> (\<forall>x\<in>set s. P x)"
proof
  assume a: "\<forall>x\<in>set (dropWhile P s). P x"
  have "dropWhile P s = []"
  proof (rule ccontr)
    assume ne: "dropWhile P s \<noteq> []"
    then have "\<not> P (hd (dropWhile P s))" by (rule hd_dropWhile)
    moreover have "hd (dropWhile P s) \<in> set (dropWhile P s)" using ne by simp
    ultimately show False using a by blast
  qed
  then show "\<forall>x\<in>set s. P x" by (simp add: dropWhile_eq_Nil_conv)
next
  assume "\<forall>x\<in>set s. P x"
  then show "\<forall>x\<in>set (dropWhile P s). P x" by (blast dest: set_dropWhileD)
qed

lemma trim_empty_iff: "trim s = [] \<longleftrightarrow> (\<forall>c\<in>set s. js_whitespace c)"
  by (simp add: trim_def dropWhile_eq_Nil_conv dropWhile_all_iff)

lemma trim_Nil: "trim [] = []"
  by (simp add: trim_def)

lemma submit_no_user:
  assumes "arg_user args = None"
  shows "\<exists>m. m \<noteq> [] \<and> sendJobRequest stop args seed out w =
           (Inr None, (toast_error m w)\<lparr>store := stop (store w)\<rparr>)"
proof -
  have "sendJobRequest stop args seed out w =
      (Inr None,
       (toast_error (''Please log in to generate '' @
            media_name (case arg_mediaType args of None \<Rightarrow> ImageMedia | Some m \<Rightarrow> m) @ ''s'') w)
         \<lparr>store := stop (store w)\<rparr>)"
    using assms by (simp add: sendJobRequest_def Let_def)
  moreover have "''Please log in to generate '' @
      media_name (case arg_mediaType args of None \<Rightarrow> ImageMedia | Some m \<Rightarrow> m) @ ''s'' \<noteq> []"
    by simp
  ultimately show ?thesis by blast
qed

lemma submit_no_user_id:
  assumes "arg_user args = Some u" and "user_id u = None \<or> user_id u = Some []"
  shows "\<exists>m. m \<noteq> [] \<and> sendJobRequest stop args seed out w =
           (Inr None, (toast_error m w)\<lparr>store := stop (store w)\<rparr>)"
proof -
  have "sendJobRequest stop args seed out w =
      (Inr None, (toast_error ''User authentication error'' w)\<lparr>store := stop (store w)\<rparr>)"
    using assms by (simp add: sendJobRequest_def Let_def)
  then show ?thesis by blast
qed

lemma submit_blank_prompt:
  assumes "arg_user args = Some u" and "user_id u = Some i" and "i \<noteq> []"
    and "trim (prompt args) = []"
  shows "\<exists>m. m \<noteq> [] \<and> sendJobRequest stop args seed out w =
           (Inr None, (toast_error m w)\<lparr>store := stop (store w)\<rparr>)"
proof -
  have "sendJobRequest stop args seed out w =
      (Inr None, (toast_error ''Please enter a prompt'' w)\<lparr>store := stop (store w)\<rparr>)"
    using assms by (simp add: sendJobRequest_def Let_def)
  then show ?thesis by blast
qed

lemma submit_long_prompt:
  assumes "arg_user args = Some u" and "user_id u = Some i" and "i \<noteq> []"
    and "trim (prompt args) \<noteq> []" and "length (prompt args) > 1000"
  shows "\<exists>m. m \<noteq> [] \<and> sendJobRequest stop args seed out w =
           (Inr None, (toast_error m w)\<lparr>store := stop (store w)\<rparr>)"
proof -
  have "prompt args \<noteq> []" using assms(4) trim_Nil by auto
  then have "sendJobRequest stop args seed out w =
      (Inr None, (toast_error ''Prompt too long (max 1000 characters)'' w)\<lparr>store := stop (store w)\<rparr>)"
    using assms by (simp add: sendJobRequest_def Let_def)
  then show ?thesis by blast
qed

text \<open>
  Claim C3. For every call of the submitter without a user, with a user whose id is missing
  or empty, with a prompt that is empty or entirely white space, or with a prompt longer
  than 1000 code units, the call returns \<open>undefined\<close>, posts no request, shows exactly one
  new toast with a non-empty message, and calls the \<open>stopGeneration\<close> callback on the store;
  with the store's own \<open>stopGeneration\<close> the in-flight flag is cleared.
\<close>

theorem submit_rejected:
  assumes "arg_user args = None
           \<or> (\<exists>u. arg_user args = Some u \<and> (user_id u = None \<or> user_id u = Some []))
           \<or> (\<forall>c\<in>set (prompt args). js_whitespace c)
           \<or> length (prompt args) > 1000"
  shows "fst (sendJobRequest stop args seed out w) = Inr None
         \<and> posted (snd (sendJobRequest stop args seed out w)) = posted w
         \<and> (\<exists>t. toasts (snd (sendJobRequest stop args seed out w)) = toasts w @ [t]
                 \<and> t_message t \<noteq> [])
         \<and> store (snd (sendJobRequest stop args seed out w)) = stop (store w)
         \<and> \<not> isActive (store (snd (sendJobRequest stopGeneration args seed out w)))"
proof -
  have shape: "\<exists>m. m \<noteq> [] \<and> sendJobRequest f args seed out w =
      (Inr None, (toast_error m w)\<lparr>store := f (store w)\<rparr>)" for f
  proof (cases "arg_user args")
    case None
    then show ?thesis by (rule submit_no_user)
  next
    case (Some u)
    show ?thesis
    proof (cases "user_id u = None \<or> user_id u = Some []")
      case True
      with Some show ?thesis by (rule submit_no_user_id)
    next
      case False
      then obtain i where noid: "user_id u = Some i" "i \<noteq> []" by auto
      show ?thesis
      proof (cases "trim (prompt args) = []")
        case True
        with Some noid show ?thesis by (rule submit_blank_prompt)
      next
        case False
        then have "\<not> (\<forall>c\<in>set (prompt args). js_whitespace c)"
          by (simp add: trim_empty_iff)
        with assms Some noid have long: "length (prompt args) > 1000" by auto
        from Some noid False long show ?thesis by (rule submit_long_prompt)
      qed
    qed
  qed
  obtain m where m: "m \<noteq> []" "sendJobRequest stop args seed out w =
      (Inr None, (toast_error m w)\<lparr>store := stop (store w)\<rparr>)"
    using shape [of stop] by blast
  obtain m' where m': "sendJobRequest stopGeneration args seed out w =
      (Inr None, (toast_error m' w)\<lparr>store := stopGeneration (store w)\<rparr>)"
    using shape [of stopGeneration] by blast
  show ?thesis
    using m(1) by (simp add: m(2) m' toast_error_def stopGeneration_def)
qed


theorem submit_rejected_witness:
  "list_all js_whitespace (prompt ex_blank_args)
   \<and> fst (sendJobRequest stopGeneration ex_blank_args 4242 (Resolves None) ex_client) = Inr None
   \<and> posted (snd (sendJobRequest stopGeneration ex_blank_args 4242 (Resolves None) ex_client)) = []
   \<and> \<not> isActive (store (snd (sendJobRequest stopGeneration ex_blank_args 4242 (Resolves None) ex_client)))"
proof -
  have h: "\<forall>c\<in>set (prompt ex_blank_args). js_whitespace c"
    by (simp add: ex_blank_args_def js_whitespace_def)
  then have h': "arg_user ex_blank_args = None
           \<or> (\<exists>u. arg_user ex_blank_args = Some u \<and> (user_id u = None \<or> user_id u = Some []))
           \<or> (\<forall>c\<in>set (prompt ex_blank_args). js_whitespace c)
           \<or> length (prompt ex_blank_args) > 1000"
    by blast
  have p: "posted ex_client = []" by (simp add: ex_client_def)
  show ?thesis
    using submit_rejected [OF h', of stopGeneration 4242 "Resolves None" ex_client] h p
    by (simp add: stopGeneration_def list_all_iff)
qed

subsection \<open>Accepted submissions\<close>

lemma submit_accepted_image:
  assumes "arg_user args = Some u" and "user_id u = Some i" and "i \<noteq> []"
    and "trim (prompt args) \<noteq> []" and "length (prompt args) \<le> 1000"
    and "arg_mediaType args \<noteq> Some VideoMedia"
  shows "sendJobRequest stop args seed out w =
     (Inr None,
      w\<lparr>posted := posted w @
          [\<lparr>endpoint = ''/api/images/generations'',
            body = \<lparr>pl_inputs = \<lparr>Prompt = trim (prompt args), Seed = seed,
                                 n = min (max (case imageCount args of None \<Rightarrow> 4 | Some c \<Rightarrow> c) 1) 10\<rparr>,
                    author = i, category = ''GENERATION''\<rparr>,
            headers = request_headers u\<rparr>]\<rparr>)"
proof -
  have ne: "prompt args \<noteq> []" using assms(4) trim_Nil by auto
  have mt: "(case arg_mediaType args of None \<Rightarrow> ImageMedia | Some m \<Rightarrow> m) \<noteq> VideoMedia"
    using assms(6) by (cases "arg_mediaType args") auto
  show ?thesis
    using assms(1-5) ne mt by (simp add: sendJobRequest_def Let_def)
qed

text \<open>The result of awaiting the video request, before the \<open>catch\<close> handler.\<close>

lemma submit_accepted_video:
  assumes "arg_user args = Some u" and "user_id u = Some i" and "i \<noteq> []"
    and "trim (prompt args) \<noteq> []" and "length (prompt args) \<le> 1000"
    and "arg_mediaType args = Some VideoMedia"
  shows "sendJobRequest stop args seed out w =
     (let w1 = w\<lparr>posted := posted w @
          [\<lparr>endpoint = ''/api/videos/generations'',
            body = \<lparr>pl_inputs = \<lparr>Prompt = trim (prompt args), Seed = seed, n = 1\<rparr>,
                    author = i, category = ''GENERATION''\<rparr>,
            headers = request_headers u\<rparr>]\<rparr>
      in (case (case out of
                  Rejects e \<Rightarrow> Inl e
                | Resolves d \<Rightarrow>
                    (case d of
                       None \<Rightarrow> Inl (OtherError ''Invalid response from video generation API'')
                     | Some rd \<Rightarrow>
                         (case rd_data rd of
                            None \<Rightarrow> Inl (OtherError ''Invalid response from video generation API'')
                          | Some jd \<Rightarrow>
                              (case jd_jobId jd of
                                 None \<Rightarrow> Inl (OtherError ''Invalid response from video generation API'')
                               | Some j \<Rightarrow>
                                   (if rd_status rd \<and> j \<noteq> [] then
                                      Inr (Some \<lparr>res_jobId = j, res_postId = jd_postId jd\<rparr>)
                                    else Inl (OtherError ''Invalid response from video generation API'')))))) of
            Inr res \<Rightarrow> (Inr res, w1)
          | Inl e \<Rightarrow> (Inl e, on_request_error stop VideoMedia e w1)))"
proof -
  have ne: "prompt args \<noteq> []" using assms(4) trim_Nil by auto
  show ?thesis
    using assms ne by (simp add: sendJobRequest_def Let_def)
qed

text \<open>
  Claim C4. For every accepted submission (a user with a non-empty id, a prompt that is not
  blank and has at most 1000 code units) exactly one request is posted, and its payload
  holds the trimmed prompt, the seed drawn, the user's id as author, the category
  "GENERATION", and an output count that is 1 for a video, whatever image count was asked
  for, and otherwise the image count (4 when left out) clamped to the range 1 to 10.
\<close>

theorem submit_payload:
  assumes "arg_user args = Some u" and "user_id u = Some i" and "i \<noteq> []"
    and "trim (prompt args) \<noteq> []" and "length (prompt args) \<le> 1000"
  shows "\<exists>req. posted (snd (sendJobRequest stop args seed out w)) = posted w @ [req]
           \<and> Prompt (pl_inputs (body req)) = trim (prompt args)
           \<and> Seed (pl_inputs (body req)) = seed
           \<and> author (body req) = i
           \<and> category (body req) = ''GENERATION''
           \<and> (arg_mediaType args = Some VideoMedia \<longrightarrow> n (pl_inputs (body req)) = 1)
           \<and> (arg_mediaType args \<noteq> Some VideoMedia \<longrightarrow>
                 (let c = (case imageCount args of None \<Rightarrow> 4 | Some c \<Rightarrow> c)
                  in n (pl_inputs (body req)) = (if c < 1 then 1 else if 10 < c then 10 else c)))"
proof (cases "arg_mediaType args = Some VideoMedia")
  case True
  let ?req = "\<lparr>endpoint = ''/api/videos/generations'',
            body = \<lparr>pl_inputs = \<lparr>Prompt = trim (prompt args), Seed = seed, n = 1\<rparr>,
                    author = i, category = ''GENERATION''\<rparr>,
            headers = request_headers u\<rparr>"
  have "posted (snd (sendJobRequest stop args seed out w)) = posted w @ [?req]"
    unfolding submit_accepted_video [OF assms True]
    by (simp add: Let_def on_request_error_def split: sum.splits)
  then show ?thesis using True by simp
next
  case False
  let ?req = "\<lparr>endpoint = ''/api/images/generations'',
            body = \<lparr>pl_inputs = \<lparr>Prompt = trim (prompt args), Seed = seed,
                                 n = min (max (case imageCount args of None \<Rightarrow> 4 | Some c \<Rightarrow> c) 1) 10\<rparr>,
                    author = i, category = ''GENERATION''\<rparr>,
            headers = request_headers u\<rparr>"
  have "posted (snd (sendJobRequest stop args seed out w)) = posted w @ [?req]"
    unfolding submit_accepted_image [OF assms False] by simp
  then show ?thesis using False by (simp add: Let_def min_def max_def)
qed

theorem submit_payload_witness:
  "arg_user (ex_args VideoMedia (Some 8)) = Some ex_user \<and> user_id ex_user = Some ''user-1''
   \<and> ''user-1'' \<noteq> [] \<and> trim (prompt (ex_args VideoMedia (Some 8))) \<noteq> []
   \<and> length (prompt (ex_args VideoMedia (Some 8))) \<le> 1000
   \<and> (\<exists>req. posted (snd (sendJobRequest stopGeneration (ex_args VideoMedia (Some 8)) 4242
                             (Resolves (Some ex_job)) ex_client)) = [req]
           \<and> Prompt (pl_inputs (body req)) = js_of ''a red fox in snow''
           \<and> Seed (pl_inputs (body req)) = 4242
           \<and> author (body req) = ''user-1''
           \<and> category (body req) = ''GENERATION''
           \<and> n (pl_inputs (body req)) = 1)
   \<and> (\<exists>req. posted (snd (sendJobRequest stopGeneration (ex_args ImageMedia None) 4242
                             (Resolves None) ex_client)) = [req]
           \<and> Prompt (pl_inputs (body req)) = js_of ''a red fox in snow''
           \<and> Seed (pl_inputs (body req)) = 4242
           \<and> author (body req) = ''user-1''
           \<and> category (body req) = ''GENERATION''
           \<and> n (pl_inputs (body req)) = 4)"
proof -
  have h1: "arg_user (ex_args mt c) = Some ex_user" for mt c by (simp add: ex_args_def)
  have h2: "user_id ex_user = Some ''user-1''" by (simp add: ex_user_def)
  have h3: "''user-1'' \<noteq> []" by simp
  have t: "trim (prompt (ex_args mt c)) = js_of ''a red fox in snow''" for mt c
    by (simp add: ex_args_def trim_def js_of_def js_whitespace_def)
  have h4: "trim (prompt (ex_args mt c)) \<noteq> []" for mt c
    unfolding t by (simp add: js_of_def)
  have h5: "length (prompt (ex_args mt c)) \<le> 1000" for mt c
    by (simp add: ex_args_def js_of_def)
  have m: "arg_mediaType (ex_args mt c) = Some mt" "imageCount (ex_args mt c) = c" for mt c
    by (simp_all add: ex_args_def)
  have p: "posted ex_client = []" by (simp add: ex_client_def)
  from submit_payload [OF h1 [of VideoMedia "Some 8"] h2 h3 h4 h5,
      of stopGeneration 4242 "Resolves (Some ex_job)" ex_client]
  have video: "\<exists>req. posted (snd (sendJobRequest stopGeneration (ex_args VideoMedia (Some 8)) 4242
                             (Resolves (Some ex_job)) ex_client)) = [req]
           \<and> Prompt (pl_inputs (body req)) = js_of ''a red fox in snow''
           \<and> Seed (pl_inputs (body req)) = 4242
           \<and> author (body req) = ''user-1''
           \<and> category (body req) = ''GENERATION''
           \<and> n (pl_inputs (body req)) = 1"
    by (simp add: m p t)
  from submit_payload [OF h1 [of ImageMedia None] h2 h3 h4 h5,
      of stopGeneration 4242 "Resolves None" ex_client]
  have image: "\<exists>req. posted (snd (sendJobRequest stopGeneration (ex_args ImageMedia None) 4242
                             (Resolves None) ex_client)) = [req]
           \<and> Prompt (pl_inputs (body req)) = js_of ''a red fox in snow''
           \<and> Seed (pl_inputs (body req)) = 4242
           \<and> author (body req) = ''user-1''
           \<and> category (body req) = ''GENERATION''
           \<and> n (pl_inputs (body req)) = 4"
    by (simp add: m p t)
  show ?thesis using h1 h2 h3 h4 h5 video image by blast
qed

subsection \<open>Video submissions\<close>

text \<open>
  Claim C5, as stated, at a concrete input: a video request rejected with status 503 is
  toasted with the error's own message, not with the server-error message.
\<close>

theorem video_5xx_counterexample:
  "map t_message (toasts (snd (sendJobRequest stopGeneration (ex_args VideoMedia None) 4242
                                  (Rejects (AxiosError ex_503)) ex_client)))
     = [''Request failed with status code 503'']
   \<and> ''Request failed with status code 503'' \<noteq> ''Server error - please try again''"
  by (simp add: sendJobRequest_def ex_args_def ex_user_def ex_client_def ex_503_def
      trim_def js_of_def js_whitespace_def on_request_error_def errorMessage_def or_else_def)

lemma submit_video_outcome:
  assumes "arg_user args = Some u" and "user_id u = Some i" and "i \<noteq> []"
    and "trim (prompt args) \<noteq> []" and "length (prompt args) \<le> 1000"
    and "arg_mediaType args = Some VideoMedia"
  shows "\<exists>x w1. (\<forall>f. sendJobRequest f args seed out w =
                     (case x of
                        Inr res \<Rightarrow> (Inr res, w1)
                      | Inl e \<Rightarrow> (Inl e, on_request_error f VideoMedia e w1)))
               \<and> (\<forall>e. out = Rejects e \<longrightarrow> x = Inl e)
               \<and> store w1 = store w \<and> toasts w1 = toasts w"
  unfolding submit_accepted_video [OF assms] Let_def
  by (intro exI conjI allI impI) (rule refl, simp_all)

text \<open>
  Claim C5, amended. An accepted video submission whose request is rejected rejects with
  the same error; and whenever an accepted video submission rejects (the request was
  rejected, or its response lacks a truthy status or a job id), the submitter has called
  \<open>stopGeneration\<close> (with the store's own, the in-flight flag is cleared) and has shown one
  toast with the message chosen from the error. That message is "Failed to start video
  generation" for an error that is not an axios error; for an axios error it is the timeout
  message when the code is ECONNABORTED, and otherwise the log-in message for status 401,
  the response's message or "Invalid request" for status 400, the server-error message for
  status 500 exactly, and for every other status (other 5xx included) or no response at
  all the response's message or else the error's own message.
\<close>

theorem video_failure_handling:
  assumes "arg_user args = Some u" and "user_id u = Some i" and "i \<noteq> []"
    and "trim (prompt args) \<noteq> []" and "length (prompt args) \<le> 1000"
    and "arg_mediaType args = Some VideoMedia"
  shows "(\<forall>e. out = Rejects e \<longrightarrow> fst (sendJobRequest stop args seed out w) = Inl e)
         \<and> (\<forall>e. fst (sendJobRequest stop args seed out w) = Inl e \<longrightarrow>
               store (snd (sendJobRequest stop args seed out w)) = stop (store w)
               \<and> \<not> isActive (store (snd (sendJobRequest stopGeneration args seed out w)))
               \<and> toasts (snd (sendJobRequest stop args seed out w)) =
                   toasts w @ [\<lparr>t_message = errorMessage VideoMedia e,
                                t_description = Some ''Please check your connection and try again'',
                                t_duration = Some 5000\<rparr>])
         \<and> (\<forall>m. errorMessage VideoMedia (OtherError m) = ''Failed to start video generation'')
         \<and> (\<forall>a. (ax_code a = Some ''ECONNABORTED'' \<longrightarrow>
                  errorMessage VideoMedia (AxiosError a) = ''Request timeout - please try again'')
               \<and> (ax_code a \<noteq> Some ''ECONNABORTED'' \<longrightarrow>
                    (ax_response a = None \<longrightarrow>
                       errorMessage VideoMedia (AxiosError a) = ax_message a)
                    \<and> (\<forall>r. ax_response a = Some r \<longrightarrow>
                         (er_status r = 401 \<longrightarrow>
                            errorMessage VideoMedia (AxiosError a) =
                              ''Please log in to generate videos'')
                       \<and> (er_status r = 400 \<longrightarrow>
                            errorMessage VideoMedia (AxiosError a) =
                              (case er_message r of
                                 None \<Rightarrow> ''Invalid request''
                               | Some m \<Rightarrow> (if m = [] then ''Invalid request'' else m)))
                       \<and> (er_status r = 500 \<longrightarrow>
                            errorMessage VideoMedia (AxiosError a) =
                              ''Server error - please try again'')
                       \<and> (er_status r \<noteq> 401 \<and> er_status r \<noteq> 400 \<and> er_status r \<noteq> 500 \<longrightarrow>
                            errorMessage VideoMedia (AxiosError a) =
                              (case er_message r of
                                 None \<Rightarrow> ax_message a
                               | Some m \<Rightarrow> (if m = [] then ax_message a else m))))))"
proof -
  obtain x w1 where
    shape: "\<And>f. sendJobRequest f args seed out w =
                 (case x of
                    Inr res \<Rightarrow> (Inr res, w1)
                  | Inl e \<Rightarrow> (Inl e, on_request_error f VideoMedia e w1))"
    and rej: "\<And>e. out = Rejects e \<Longrightarrow> x = Inl e"
    and frame: "store w1 = store w" "toasts w1 = toasts w"
    using submit_video_outcome [OF assms, of seed out w] by blast
  have rethrow: "\<forall>e. out = Rejects e \<longrightarrow> fst (sendJobRequest stop args seed out w) = Inl e"
  proof (intro allI impI)
    fix e
    assume "out = Rejects e"
    then have "x = Inl e" by (rule rej)
    then show "fst (sendJobRequest stop args seed out w) = Inl e" by (simp add: shape)
  qed
  have handled: "\<forall>e. fst (sendJobRequest stop args seed out w) = Inl e \<longrightarrow>
               store (snd (sendJobRequest stop args seed out w)) = stop (store w)
               \<and> \<not> isActive (store (snd (sendJobRequest stopGeneration args seed out w)))
               \<and> toasts (snd (sendJobRequest stop args seed out w)) =
                   toasts w @ [\<lparr>t_message = errorMessage VideoMedia e,
                                t_description = Some ''Please check your connection and try again'',
                                t_duration = Some 5000\<rparr>]"
    by (cases x) (simp_all add: shape frame on_request_error_def stopGeneration_def)
  have other: "\<forall>m. errorMessage VideoMedia (OtherError m) = ''Failed to start video generation''"
    by (simp add: errorMessage_def media_name_def)
  have axios: "\<forall>a. (ax_code a = Some ''ECONNABORTED'' \<longrightarrow>
                  errorMessage VideoMedia (AxiosError a) = ''Request timeout - please try again'')
               \<and> (ax_code a \<noteq> Some ''ECONNABORTED'' \<longrightarrow>
                    (ax_response a = None \<longrightarrow>
                       errorMessage VideoMedia (AxiosError a) = ax_message a)
                    \<and> (\<forall>r. ax_response a = Some r \<longrightarrow>
                         (er_status r = 401 \<longrightarrow>
                            errorMessage VideoMedia (AxiosError a) =
                              ''Please log in to generate videos'')
                       \<and> (er_status r = 400 \<longrightarrow>
                            errorMessage VideoMedia (AxiosError a) =
                              (case er_message r of
                                 None \<Rightarrow> ''Invalid request''
                               | Some m \<Rightarrow> (if m = [] then ''Invalid request'' else m)))
                       \<and> (er_status r = 500 \<longrightarrow>
                            errorMessage VideoMedia (AxiosError a) =
                              ''Server error - please try again'')
                       \<and> (er_status r \<noteq> 401 \<and> er_status r \<noteq> 400 \<and> er_status r \<noteq> 500 \<longrightarrow>
                            errorMessage VideoMedia (AxiosError a) =
                              (case er_message r of
                                 None \<Rightarrow> ax_message a
                               | Some m \<Rightarrow> (if m = [] then ax_message a else m)))))"
    by (simp add: errorMessage_def media_name_def or_else_def)
  from rethrow handled other axios show ?thesis by (intro conjI)
qed

theorem video_failure_handling_witness:
  "arg_user (ex_args VideoMedia None) = Some ex_user \<and> user_id ex_user = Some ''user-1''
   \<and> ''user-1'' \<noteq> [] \<and> trim (prompt (ex_args VideoMedia None)) \<noteq> []
   \<and> length (prompt (ex_args VideoMedia None)) \<le> 1000
   \<and> arg_mediaType (ex_args VideoMedia None) = Some VideoMedia
   \<and> ax_code ex_401 \<noteq> Some ''ECONNABORTED''
   \<and> ax_response ex_401 = Some \<lparr>er_status = 401, er_message = Some ''Unauthorized''\<rparr>
   \<and> fst (sendJobRequest stopGeneration (ex_args VideoMedia None) 4242
             (Rejects (AxiosError ex_401)) ex_client) = Inl (AxiosError ex_401)
   \<and> \<not> isActive (store (snd (sendJobRequest stopGeneration (ex_args VideoMedia None) 4242
                                 (Rejects (AxiosError ex_401)) ex_client)))
   \<and> errorMessage VideoMedia (AxiosError ex_401) = ''Please log in to generate videos''
   \<and> ax_code ex_503 \<noteq> Some ''ECONNABORTED''
   \<and> ax_response ex_503 = Some \<lparr>er_status = 503, er_message = None\<rparr>
   \<and> errorMessage VideoMedia (AxiosError ex_503) = ''Request failed with status code 503''"
proof -
  have h1: "arg_user (ex_args VideoMedia None) = Some ex_user" by (simp add: ex_args_def)
  have h2: "user_id ex_user = Some ''user-1''" by (simp add: ex_user_def)
  have h3: "''user-1'' \<noteq> []" by simp
  have h4: "trim (prompt (ex_args VideoMedia None)) \<noteq> []"
    by (simp add: ex_args_def trim_def js_of_def js_whitespace_def)
  have h5: "length (prompt (ex_args VideoMedia None)) \<le> 1000"
    by (simp add: ex_args_def js_of_def)
  have h6: "arg_mediaType (ex_args VideoMedia None) = Some VideoMedia" by (simp add: ex_args_def)
  have c: "ax_code ex_401 \<noteq> Some ''ECONNABORTED''" by (simp add: ex_401_def)
  have r: "ax_response ex_401 = Some \<lparr>er_status = 401, er_message = Some ''Unauthorized''\<rparr>"
    by (simp add: ex_401_def)
  have c': "ax_code ex_503 \<noteq> Some ''ECONNABORTED''" by (simp add: ex_503_def)
  have r': "ax_response ex_503 = Some \<lparr>er_status = 503, er_message = None\<rparr>"
    by (simp add: ex_503_def)
  have m': "ax_message ex_503 = ''Request failed with status code 503''"
    by (simp add: ex_503_def)
  note t = video_failure_handling [OF h1 h2 h3 h4 h5 h6,
      of "Rejects (AxiosError ex_401)" stopGeneration 4242 ex_client]
  from t have a: "fst (sendJobRequest stopGeneration (ex_args VideoMedia None) 4242
             (Rejects (AxiosError ex_401)) ex_client) = Inl (AxiosError ex_401)"
    by blast
  from t a have b: "\<not> isActive (store (snd (sendJobRequest stopGeneration
      (ex_args VideoMedia None) 4242 (Rejects (AxiosError ex_401)) ex_client)))"
    by blast
  from t have ax: "\<And>a. ax_code a \<noteq> Some ''ECONNABORTED'' \<Longrightarrow>
      (\<forall>r. ax_response a = Some r \<longrightarrow>
         (er_status r = 401 \<longrightarrow>
            errorMessage VideoMedia (AxiosError a) = ''Please log in to generate videos'')
         \<and> (er_status r \<noteq> 401 \<and> er_status r \<noteq> 400 \<and> er_status r \<noteq> 500 \<longrightarrow>
              errorMessage VideoMedia (AxiosError a) =
                (case er_message r of
                   None \<Rightarrow> ax_message a
                 | Some m \<Rightarrow> (if m = [] then ax_message a else m))))"
    by blast
  have m: "errorMessage VideoMedia (AxiosError ex_401) = ''Please log in to generate videos''"
    using ax [OF c] r by simp
  have n: "errorMessage VideoMedia (AxiosError ex_503) = ''Request failed with status code 503''"
    using ax [OF c'] r' m' by simp
  show ?thesis using h1 h2 h3 h4 h5 h6 c r a b m c' r' n by blast
qed

text \<open>
  Claim C6. For an accepted video submission whose request resolves: when the response has
  a truthy status and a non-empty \<open>data.jobId\<close>, the submitter resolves to that job id
  together with \<open>data.postId\<close>, having done nothing but post the one request (the store, the
  toasts and every other cell are as before); otherwise it rejects with the error "Invalid
  response from video generation API".
\<close>

theorem video_returns_job_id:
  assumes "arg_user args = Some u" and "user_id u = Some i" and "i \<noteq> []"
    and "trim (prompt args) \<noteq> []" and "length (prompt args) \<le> 1000"
    and "arg_mediaType args = Some VideoMedia"
    and "out = Resolves d"
  shows "(\<forall>rd jd j. d = Some rd \<and> rd_status rd \<and> rd_data rd = Some jd
                    \<and> jd_jobId jd = Some j \<and> j \<noteq> [] \<longrightarrow>
            sendJobRequest stop args seed out w =
              (Inr (Some \<lparr>res_jobId = j, res_postId = jd_postId jd\<rparr>),
               w\<lparr>posted := posted w @
                   [\<lparr>endpoint = ''/api/videos/generations'',
                     body = \<lparr>pl_inputs = \<lparr>Prompt = trim (prompt args), Seed = seed, n = 1\<rparr>,
                             author = i, category = ''GENERATION''\<rparr>,
                     headers = request_headers u\<rparr>]\<rparr>))
         \<and> (\<not> (\<exists>rd jd j. d = Some rd \<and> rd_status rd \<and> rd_data rd = Some jd
                         \<and> jd_jobId jd = Some j \<and> j \<noteq> []) \<longrightarrow>
              fst (sendJobRequest stop args seed out w) =
                Inl (OtherError ''Invalid response from video generation API''))"
  unfolding submit_accepted_video [OF assms(1-6)]
  by (auto simp: assms(7) Let_def split: option.splits)

theorem video_returns_job_id_witness:
  "arg_user (ex_args VideoMedia None) = Some ex_user \<and> user_id ex_user = Some ''user-1''
   \<and> ''user-1'' \<noteq> [] \<and> trim (prompt (ex_args VideoMedia None)) \<noteq> []
   \<and> length (prompt (ex_args VideoMedia None)) \<le> 1000
   \<and> arg_mediaType (ex_args VideoMedia None) = Some VideoMedia
   \<and> fst (sendJobRequest stopGeneration (ex_args VideoMedia None) 4242
             (Resolves (Some ex_job)) ex_client)
       = Inr (Some \<lparr>res_jobId = ''job-1'', res_postId = Some 7\<rparr>)
   \<and> fst (sendJobRequest stopGeneration (ex_args VideoMedia None) 4242
             (Resolves None) ex_client)
       = Inl (OtherError ''Invalid response from video generation API'')"
proof -
  have h1: "arg_user (ex_args VideoMedia None) = Some ex_user" by (simp add: ex_args_def)
  have h2: "user_id ex_user = Some ''user-1''" by (simp add: ex_user_def)
  have h3: "''user-1'' \<noteq> []" by simp
  have h4: "trim (prompt (ex_args VideoMedia None)) \<noteq> []"
    by (simp add: ex_args_def trim_def js_of_def js_whitespace_def)
  have h5: "length (prompt (ex_args VideoMedia None)) \<le> 1000"
    by (simp add: ex_args_def js_of_def)
  have h6: "arg_mediaType (ex_args VideoMedia None) = Some VideoMedia" by (simp add: ex_args_def)
  have j: "Some ex_job = Some ex_job \<and> rd_status ex_job
      \<and> rd_data ex_job = Some \<lparr>jd_jobId = Some ''job-1'', jd_postId = Some 7,
                                estimated_processing_time = None\<rparr>
      \<and> jd_jobId \<lparr>jd_jobId = Some ''job-1'', jd_postId = Some 7,
                   estimated_processing_time = None\<rparr> = Some ''job-1''
      \<and> ''job-1'' \<noteq> []"
    by (simp add: ex_job_def)
  have a: "fst (sendJobRequest stopGeneration (ex_args VideoMedia None) 4242
             (Resolves (Some ex_job)) ex_client)
       = Inr (Some \<lparr>res_jobId = ''job-1'', res_postId = Some 7\<rparr>)"
    using video_returns_job_id [OF h1 h2 h3 h4 h5 h6 refl,
        of "Some ex_job" stopGeneration 4242 ex_client] j
    by simp
  have b: "fst (sendJobRequest stopGeneration (ex_args VideoMedia None) 4242
             (Resolves None) ex_client)
       = Inl (OtherError ''Invalid response from video generation API'')"
    using video_returns_job_id [OF h1 h2 h3 h4 h5 h6 refl,
        of None stopGeneration 4242 ex_client]
    by simp
  show ?thesis using h1 h2 h3 h4 h5 h6 a b by blast
qed

section \<open>Properties of the image path\<close>

text \<open>
  Claim C7. On the image path the handler of a resolved request changes nothing: the store,
  and with it the in-flight flag, is as before. A tick of the row-polling loop that finds a
  post id different from the last observed one calls \<open>stopGeneration\<close> (with the store's own,
  the flag is cleared), invalidates the cached "posts" listing and navigates to the new
  post; every other tick changes nothing.
\<close>

theorem image_flag_cleared_on_detection:
  "image_request_settled stop (Resolves d) w = w
   \<and> (q = QueryData (Some i) \<and> Some i \<noteq> latestPostId w \<longrightarrow>
         store (row_poll_tick stop q w) = stop (store w)
         \<and> \<not> isActive (store (row_poll_tick stopGeneration q w))
         \<and> invalidated (row_poll_tick stop q w) = invalidated w @ [[''posts'']]
         \<and> pushed (row_poll_tick stop q w) = pushed w @ [''/home/photo/'' @ show_nat i])
   \<and> (\<not> (\<exists>j. q = QueryData (Some j) \<and> Some j \<noteq> latestPostId w) \<longrightarrow>
         row_poll_tick stop q w = w)"
  by (auto simp: image_request_settled_def row_poll_tick_def stopGeneration_def
           split: query_outcome.splits option.splits)

theorem image_flag_cleared_on_detection_witness:
  "QueryData (Some 42) = QueryData (Some 42) \<and> Some 42 \<noteq> latestPostId ex_client
   \<and> isActive (store (image_request_settled stopGeneration (Resolves None) ex_client))
   \<and> \<not> isActive (store (row_poll_tick stopGeneration (QueryData (Some 42)) ex_client))
   \<and> invalidated (row_poll_tick stopGeneration (QueryData (Some 42)) ex_client) = [[''posts'']]
   \<and> pushed (row_poll_tick stopGeneration (QueryData (Some 42)) ex_client) = [''/home/photo/42'']
   \<and> \<not> (\<exists>j. QueryData (Some 41) = QueryData (Some j) \<and> Some j \<noteq> latestPostId ex_client)
   \<and> row_poll_tick stopGeneration (QueryData (Some 41)) ex_client = ex_client"
proof -
  have l: "latestPostId ex_client = Some 41" by (simp add: ex_client_def)
  have h1: "QueryData (Some 42) = QueryData (Some 42) \<and> Some 42 \<noteq> latestPostId ex_client"
    by (simp add: l)
  have h2: "\<not> (\<exists>j. QueryData (Some 41) = QueryData (Some j) \<and> Some j \<noteq> latestPostId ex_client)"
    by (simp add: l)
  have e: "isActive (store ex_client)" "invalidated ex_client = []" "pushed ex_client = []"
    by (simp_all add: ex_client_def)
  have s: "show_nat 42 = ''42''" by (simp add: show_nat.simps digit_char_def)
  have a: "isActive (store (image_request_settled stopGeneration (Resolves None) ex_client))"
    using image_flag_cleared_on_detection [of stopGeneration None ex_client "QueryData (Some 42)" 42] e
    by simp
  have b: "\<not> isActive (store (row_poll_tick stopGeneration (QueryData (Some 42)) ex_client))
   \<and> invalidated (row_poll_tick stopGeneration (QueryData (Some 42)) ex_client) = [[''posts'']]
   \<and> pushed (row_poll_tick stopGeneration (QueryData (Some 42)) ex_client) = [''/home/photo/42'']"
    using image_flag_cleared_on_detection [of stopGeneration None ex_client "QueryData (Some 42)" 42]
      h1 e s
    by (simp add: stopGeneration_def)
  have c: "row_poll_tick stopGeneration (QueryData (Some 41)) ex_client = ex_client"
    using image_flag_cleared_on_detection [of stopGeneration None ex_client "QueryData (Some 41)" 41]
      h2
    by blast
  show ?thesis using h1 h2 a b c by blast
qed

section \<open>Properties of the gallery formatter\<close>

lemma gallery_photo_None_iff:
  "gallery_photo cfg p k = None \<longleftrightarrow> \<not> hasValidImage p \<and> \<not> hasValidVideo p"
  by (simp add: gallery_photo_def Let_def)

lemma gallery_photo_id:
  "gallery_photo cfg p k = Some ph \<Longrightarrow> ph_id ph = show_nat (p_id p)"
  by (auto simp: gallery_photo_def Let_def split: if_splits)

lemma hasValidImage_nonnull: "hasValidImage p \<Longrightarrow> p_ipfsImages p \<noteq> None"
  by (cases "p_ipfsImages p") (simp_all add: hasValidImage_def)

lemma hasValidVideo_nonnull:
  "hasValidVideo p \<Longrightarrow> p_media_type p = Some ''VIDEO'' \<and> p_video_data p \<noteq> None"
  by (cases "p_video_data p") (simp_all add: hasValidVideo_def video_data_truthy_def)

lemma in_map_index:
  "y \<in> set (map_index f xs) \<longleftrightarrow> (\<exists>k<length xs. y = f (xs ! k) k)"
proof
  assume "y \<in> set (map_index f xs)"
  then obtain i x where ix: "(i, x) \<in> set (enumerate 0 xs)" and y: "y = f x i"
    by (auto simp: map_index_def)
  from ix have "i < length xs" and "xs ! i = x"
    by (simp_all add: in_set_enumerate_eq)
  with y show "\<exists>k<length xs. y = f (xs ! k) k" by blast
next
  assume "\<exists>k<length xs. y = f (xs ! k) k"
  then obtain k where k: "k < length xs" and y: "y = f (xs ! k) k" by blast
  from k have "(k, xs ! k) \<in> set (enumerate 0 xs)"
    by (simp add: in_set_enumerate_eq)
  then have "(\<lambda>(i, x). f x i) (k, xs ! k) \<in> set (map (\<lambda>(i, x). f x i) (enumerate 0 xs))"
    unfolding set_map by (rule imageI)
  then show "y \<in> set (map_index f xs)" by (simp add: map_index_def y)
qed

lemma set_map_filter_id: "set (List.map_filter (\<lambda>x. x) ys) = {y. Some y \<in> set ys}"
  by (induction ys) (auto split: option.splits)

lemma in_formattedPhotosForGallery:
  "ph \<in> set (formattedPhotosForGallery cfg pages) \<longleftrightarrow>
     (\<exists>pg\<in>set pages. \<exists>k<length (page_data pg). gallery_photo cfg (page_data pg ! k) k = Some ph)"
proof -
  have "ph \<in> set (formattedPhotosForGallery cfg pages) \<longleftrightarrow>
      (\<exists>pg\<in>set pages. Some ph \<in> set (map_index (gallery_photo cfg) (page_data pg)))"
    by (auto simp: formattedPhotosForGallery_def set_map_filter_id)
  also have "\<dots> \<longleftrightarrow>
      (\<exists>pg\<in>set pages. \<exists>k<length (page_data pg). Some ph = gallery_photo cfg (page_data pg ! k) k)"
    by (simp only: in_map_index)
  also have "\<dots> \<longleftrightarrow>
      (\<exists>pg\<in>set pages. \<exists>k<length (page_data pg). gallery_photo cfg (page_data pg ! k) k = Some ph)"
    by (simp only: eq_commute [of "Some ph"])
  finally show ?thesis .
qed

lemma ids_of_enumerated:
  "map ph_id (List.map_filter (\<lambda>x. x) (map (\<lambda>(i, x). gallery_photo cfg x i) (enumerate m xs))) =
     map (\<lambda>p. show_nat (p_id p)) (filter (\<lambda>p. hasValidImage p \<or> hasValidVideo p) xs)"
proof (induction xs arbitrary: m)
  case Nil
  then show ?case by (simp add: map_filter_simps)
next
  case (Cons p ps)
  show ?case
  proof (cases "gallery_photo cfg p m")
    case None
    then have "\<not> (hasValidImage p \<or> hasValidVideo p)"
      by (simp add: gallery_photo_None_iff)
    then show ?thesis using None Cons.IH [of "Suc m"]
      by (simp add: map_filter_simps)
  next
    case (Some ph)
    then have v: "hasValidImage p \<or> hasValidVideo p"
      using gallery_photo_None_iff [of cfg p m] by auto
    have "ph_id ph = show_nat (p_id p)" using Some by (rule gallery_photo_id)
    then show ?thesis using Some v Cons.IH [of "Suc m"]
      by (simp add: map_filter_simps)
  qed
qed

lemma map_filter_append:
  "List.map_filter f (xs @ ys) = List.map_filter f xs @ List.map_filter f ys"
  by (simp add: List.map_filter_def)

lemma ids_of_pages:
  "map ph_id (formattedPhotosForGallery cfg pages) =
     map (\<lambda>p. show_nat (p_id p))
       (filter (\<lambda>p. hasValidImage p \<or> hasValidVideo p) (concat (map page_data pages)))"
proof (induction pages)
  case Nil
  then show ?case by (simp add: formattedPhotosForGallery_def map_filter_simps)
next
  case (Cons pg pgs)
  then show ?case
    using ids_of_enumerated [of cfg 0 "page_data pg"]
    by (simp add: formattedPhotosForGallery_def map_filter_append map_index_def)
qed

text \<open>
  Claim C8. Every photo produced by \<open>formattedPhotosForGallery\<close> is the photo of a post of
  some page that has a valid image (a first element of \<open>ipfsImages\<close> with a non-empty hash and
  a non-empty first file name) or valid video data (media type "VIDEO" and \<open>video_data\<close> not
  null), so that post has \<open>ipfsImages\<close> or \<open>video_data\<close> not null; a post with neither
  yields no photo; and the ids of the photos are the ids of the posts with valid media, in
  page order.
\<close>

theorem gallery_photos_displayable:
  "(\<forall>ph\<in>set (formattedPhotosForGallery cfg pages).
      \<exists>pg\<in>set pages. \<exists>k<length (page_data pg).
        gallery_photo cfg (page_data pg ! k) k = Some ph
        \<and> (hasValidImage (page_data pg ! k)
            \<or> (p_media_type (page_data pg ! k) = Some ''VIDEO''
                \<and> p_video_data (page_data pg ! k) \<noteq> None))
        \<and> (p_ipfsImages (page_data pg ! k) \<noteq> None \<or> p_video_data (page_data pg ! k) \<noteq> None))
   \<and> (\<forall>pg\<in>set pages. \<forall>k<length (page_data pg).
        \<not> hasValidImage (page_data pg ! k)
        \<and> \<not> (p_media_type (page_data pg ! k) = Some ''VIDEO''
               \<and> p_video_data (page_data pg ! k) \<noteq> None)
        \<longrightarrow> gallery_photo cfg (page_data pg ! k) k = None)
   \<and> map ph_id (formattedPhotosForGallery cfg pages) =
       map (\<lambda>p. show_nat (p_id p))
         (filter (\<lambda>p. hasValidImage p \<or> hasValidVideo p) (concat (map page_data pages)))"
proof (intro conjI ballI allI impI)
  fix ph
  assume "ph \<in> set (formattedPhotosForGallery cfg pages)"
  then obtain pg k where pg: "pg \<in> set pages" and k: "k < length (page_data pg)"
    and g: "gallery_photo cfg (page_data pg ! k) k = Some ph"
    by (auto simp: in_formattedPhotosForGallery)
  let ?p = "page_data pg ! k"
  have v: "hasValidImage ?p \<or> hasValidVideo ?p"
    using g gallery_photo_None_iff [of cfg ?p k] by auto
  then have "hasValidImage ?p \<or> (p_media_type ?p = Some ''VIDEO'' \<and> p_video_data ?p \<noteq> None)"
    using hasValidVideo_nonnull by blast
  moreover have "p_ipfsImages ?p \<noteq> None \<or> p_video_data ?p \<noteq> None"
    using v hasValidImage_nonnull hasValidVideo_nonnull by blast
  ultimately show "\<exists>pg\<in>set pages. \<exists>k<length (page_data pg).
        gallery_photo cfg (page_data pg ! k) k = Some ph
        \<and> (hasValidImage (page_data pg ! k)
            \<or> (p_media_type (page_data pg ! k) = Some ''VIDEO''
                \<and> p_video_data (page_data pg ! k) \<noteq> None))
        \<and> (p_ipfsImages (page_data pg ! k) \<noteq> None \<or> p_video_data (page_data pg ! k) \<noteq> None)"
    using pg k g by blast
next
  fix pg k
  assume "\<not> hasValidImage (page_data pg ! k)
        \<and> \<not> (p_media_type (page_data pg ! k) = Some ''VIDEO''
               \<and> p_video_data (page_data pg ! k) \<noteq> None)"
  then have "\<not> hasValidImage (page_data pg ! k) \<and> \<not> hasValidVideo (page_data pg ! k)"
    using hasValidVideo_nonnull by blast
  then show "gallery_photo cfg (page_data pg ! k) k = None"
    by (simp add: gallery_photo_None_iff)
next
  show "map ph_id (formattedPhotosForGallery cfg pages) =
       map (\<lambda>p. show_nat (p_id p))
         (filter (\<lambda>p. hasValidImage p \<or> hasValidVideo p) (concat (map page_data pages)))"
    by (rule ids_of_pages)
qed


theorem gallery_photos_displayable_witness:
  "\<lparr>page_data = [ex_post 4 (Some ''VIDEO'') None None]\<rparr> \<in> set ex_pages
   \<and> \<not> hasValidImage (ex_post 4 (Some ''VIDEO'') None None)
   \<and> \<not> (p_media_type (ex_post 4 (Some ''VIDEO'') None None) = Some ''VIDEO''
          \<and> p_video_data (ex_post 4 (Some ''VIDEO'') None None) \<noteq> None)
   \<and> gallery_photo ex_config (ex_post 4 (Some ''VIDEO'') None None) 0 = None
   \<and> map ph_id (formattedPhotosForGallery ex_config ex_pages) = [''1'', ''3'']
   \<and> (\<exists>ph. ph \<in> set (formattedPhotosForGallery ex_config ex_pages))"
proof -
  let ?p = "ex_post 4 (Some ''VIDEO'') None None"
  let ?pg = "\<lparr>page_data = [?p]\<rparr>"
  note t = gallery_photos_displayable [of ex_config ex_pages]
  have h1: "?pg \<in> set ex_pages" by (simp add: ex_pages_def)
  have h2: "(0::nat) < length (page_data ?pg)" by simp
  have h3: "\<not> hasValidImage ?p" by (simp add: hasValidImage_def ex_post_def)
  have h4: "\<not> (p_media_type ?p = Some ''VIDEO'' \<and> p_video_data ?p \<noteq> None)"
    by (simp add: ex_post_def)
  from t have "\<forall>pg\<in>set ex_pages. \<forall>k<length (page_data pg).
        \<not> hasValidImage (page_data pg ! k)
        \<and> \<not> (p_media_type (page_data pg ! k) = Some ''VIDEO''
               \<and> p_video_data (page_data pg ! k) \<noteq> None)
        \<longrightarrow> gallery_photo ex_config (page_data pg ! k) k = None"
    by blast
  from this h1 have "\<forall>k<length (page_data ?pg).
        \<not> hasValidImage (page_data ?pg ! k)
        \<and> \<not> (p_media_type (page_data ?pg ! k) = Some ''VIDEO''
               \<and> p_video_data (page_data ?pg ! k) \<noteq> None)
        \<longrightarrow> gallery_photo ex_config (page_data ?pg ! k) k = None"
    by (rule bspec)
  with h2 h3 h4 have a: "gallery_photo ex_config ?p 0 = None" by simp
  have f: "filter (\<lambda>p. hasValidImage p \<or> hasValidVideo p) (concat (map page_data ex_pages)) =
      [ex_post 1 (Some ''IMAGE'') (Some [\<lparr>img_hash = Some ''Qm1'', fileNames = Some [''0.png'']\<rparr>]) None,
       ex_post 3 (Some ''VIDEO'') None
         (Some (VMany [Some (VObject \<lparr>v_hash = Some (HashText ''https://cdn/v/3.mp4''),
                                          v_fileNames = None,
                                       v_url = Some ''https://cdn/v/3.mp4'', v_src = None\<rparr>)]))]"
    by (simp add: ex_pages_def ex_post_def hasValidImage_def hasValidVideo_def
        video_data_truthy_def first_name_def)
  from t have "map ph_id (formattedPhotosForGallery ex_config ex_pages) =
       map (\<lambda>p. show_nat (p_id p))
         (filter (\<lambda>p. hasValidImage p \<or> hasValidVideo p) (concat (map page_data ex_pages)))"
    by blast
  then have b: "map ph_id (formattedPhotosForGallery ex_config ex_pages) = [''1'', ''3'']"
    unfolding f by (simp add: ex_post_def show_nat.simps digit_char_def)
  then have "formattedPhotosForGallery ex_config ex_pages \<noteq> []" by auto
  then have c: "\<exists>ph. ph \<in> set (formattedPhotosForGallery ex_config ex_pages)"
    by (cases "formattedPhotosForGallery ex_config ex_pages") auto
  show ?thesis using h1 h3 h4 a b c by blast
qed

end
